theory Spec2Isabelle
  imports Complex_Main "HOL-Library.Sublist"
begin

section \<open>JavaScript values\<close>

text \<open>
  A JavaScript number is a finite value or one of the three special values. Finite values
  are modelled as exact reals: the rounding of binary64 arithmetic and the sign of zero
  are not represented.
\<close>

datatype jsnum = Num real | PosInf | NegInf | NaN

text \<open>
  A JavaScript string is a sequence of UTF-16 code units, each a natural number below
  65536; \<open>length\<close> counts code units, as the \<open>length\<close> property of the source does.
  \<open>utf16\<close> embeds an ASCII literal.
\<close>

type_synonym jsstring = "nat list"

definition utf16 :: "string \<Rightarrow> jsstring" where
  "utf16 s = map of_char s"

datatype jsval =
    JUndefined
  | JNull
  | JBool bool
  | JNumber jsnum
  | JString jsstring
  | JCoords jsnum jsnum

text \<open>
  An object is read through its property names; a property that is absent reads as
  \<open>undefined\<close>. The spread \<open>{...record, k: v}\<close> is the function update \<open>record(k := v)\<close>.
\<close>

type_synonym jsobj = "string \<Rightarrow> jsval"

definition emptyObj :: jsobj where
  "emptyObj = (\<lambda>_. JUndefined)"

fun num_truthy :: "jsnum \<Rightarrow> bool" where
  "num_truthy (Num x) = (x \<noteq> 0)"
| "num_truthy NaN = False"
| "num_truthy PosInf = True"
| "num_truthy NegInf = True"

fun truthy :: "jsval \<Rightarrow> bool" where
  "truthy JUndefined = False"
| "truthy JNull = False"
| "truthy (JBool b) = b"
| "truthy (JNumber n) = num_truthy n"
| "truthy (JString s) = (s \<noteq> [])"
| "truthy (JCoords a b) = True"

subsection \<open>Arithmetic on numbers\<close>

fun js_neg :: "jsnum \<Rightarrow> jsnum" where
  "js_neg (Num x) = Num (- x)"
| "js_neg PosInf = NegInf"
| "js_neg NegInf = PosInf"
| "js_neg NaN = NaN"

fun js_add :: "jsnum \<Rightarrow> jsnum \<Rightarrow> jsnum" where
  "js_add (Num x) (Num y) = Num (x + y)"
| "js_add NaN _ = NaN"
| "js_add _ NaN = NaN"
| "js_add PosInf NegInf = NaN"
| "js_add NegInf PosInf = NaN"
| "js_add PosInf _ = PosInf"
| "js_add NegInf _ = NegInf"
| "js_add _ PosInf = PosInf"
| "js_add _ NegInf = NegInf"

definition js_sub :: "jsnum \<Rightarrow> jsnum \<Rightarrow> jsnum" where
  "js_sub a b = js_add a (js_neg b)"

definition sign_inf :: "bool \<Rightarrow> jsnum" where
  "sign_inf positive = (if positive then PosInf else NegInf)"

fun js_mul :: "jsnum \<Rightarrow> jsnum \<Rightarrow> jsnum" where
  "js_mul (Num x) (Num y) = Num (x * y)"
| "js_mul NaN _ = NaN"
| "js_mul _ NaN = NaN"
| "js_mul (Num x) PosInf = (if x = 0 then NaN else sign_inf (0 < x))"
| "js_mul (Num x) NegInf = (if x = 0 then NaN else sign_inf (x < 0))"
| "js_mul PosInf (Num y) = (if y = 0 then NaN else sign_inf (0 < y))"
| "js_mul NegInf (Num y) = (if y = 0 then NaN else sign_inf (y < 0))"
| "js_mul PosInf PosInf = PosInf"
| "js_mul NegInf NegInf = PosInf"
| "js_mul PosInf NegInf = NegInf"
| "js_mul NegInf PosInf = NegInf"

text \<open>Division by a zero divisor yields an infinity (or NaN for \<open>0 / 0\<close>), never a failure.\<close>

fun js_div :: "jsnum \<Rightarrow> jsnum \<Rightarrow> jsnum" where
  "js_div (Num x) (Num y) =
     (if y = 0 then (if x = 0 then NaN else sign_inf (0 < x)) else Num (x / y))"
| "js_div NaN _ = NaN"
| "js_div _ NaN = NaN"
| "js_div (Num x) PosInf = Num 0"
| "js_div (Num x) NegInf = Num 0"
| "js_div PosInf (Num y) = sign_inf (0 \<le> y)"
| "js_div NegInf (Num y) = sign_inf (y < 0)"
| "js_div PosInf PosInf = NaN"
| "js_div PosInf NegInf = NaN"
| "js_div NegInf PosInf = NaN"
| "js_div NegInf NegInf = NaN"

text \<open>The relational operators; every comparison with NaN is false.\<close>

fun js_lt :: "jsnum \<Rightarrow> jsnum \<Rightarrow> bool" where
  "js_lt (Num x) (Num y) = (x < y)"
| "js_lt NaN _ = False"
| "js_lt _ NaN = False"
| "js_lt NegInf NegInf = False"
| "js_lt NegInf _ = True"
| "js_lt _ NegInf = False"
| "js_lt PosInf _ = False"
| "js_lt _ PosInf = True"

fun js_le :: "jsnum \<Rightarrow> jsnum \<Rightarrow> bool" where
  "js_le (Num x) (Num y) = (x \<le> y)"
| "js_le NaN _ = False"
| "js_le _ NaN = False"
| "js_le NegInf _ = True"
| "js_le PosInf PosInf = True"
| "js_le PosInf _ = False"
| "js_le _ PosInf = True"
| "js_le _ NegInf = False"

definition js_gt :: "jsnum \<Rightarrow> jsnum \<Rightarrow> bool" where
  "js_gt a b = js_lt b a"

definition js_ge :: "jsnum \<Rightarrow> jsnum \<Rightarrow> bool" where
  "js_ge a b = js_le b a"

definition isNaN :: "jsnum \<Rightarrow> bool" where
  "isNaN n = (n = NaN)"

text \<open>\<open>Math.min\<close> and \<open>Math.max\<close> of two arguments: NaN if either argument is NaN.\<close>

definition Math_min :: "jsnum \<Rightarrow> jsnum \<Rightarrow> jsnum" where
  "Math_min a b = (if a = NaN \<or> b = NaN then NaN else if js_le a b then a else b)"

definition Math_max :: "jsnum \<Rightarrow> jsnum \<Rightarrow> jsnum" where
  "Math_max a b = (if a = NaN \<or> b = NaN then NaN else if js_le a b then b else a)"

fun Math_sin :: "jsnum \<Rightarrow> jsnum" where
  "Math_sin (Num x) = Num (sin x)"
| "Math_sin _ = NaN"

fun Math_cos :: "jsnum \<Rightarrow> jsnum" where
  "Math_cos (Num x) = Num (cos x)"
| "Math_cos _ = NaN"

fun Math_sqrt :: "jsnum \<Rightarrow> jsnum" where
  "Math_sqrt (Num x) = (if x < 0 then NaN else Num (sqrt x))"
| "Math_sqrt PosInf = PosInf"
| "Math_sqrt _ = NaN"

text \<open>\<open>Math.atan2(y, x)\<close>: the angle of the point \<open>(x, y)\<close>, in \<open>(-\<pi>, \<pi>]\<close>.\<close>

definition atan2_real :: "real \<Rightarrow> real \<Rightarrow> real" where
  "atan2_real y x =
     (if 0 < x then arctan (y / x)
      else if x < 0 then (if 0 \<le> y then arctan (y / x) + pi else arctan (y / x) - pi)
      else if 0 < y then pi / 2
      else if y < 0 then - (pi / 2)
      else 0)"

fun Math_atan2 :: "jsnum \<Rightarrow> jsnum \<Rightarrow> jsnum" where
  "Math_atan2 (Num y) (Num x) = Num (atan2_real y x)"
| "Math_atan2 NaN _ = NaN"
| "Math_atan2 _ NaN = NaN"
| "Math_atan2 (Num y) PosInf = Num 0"
| "Math_atan2 (Num y) NegInf = Num (if 0 \<le> y then pi else - pi)"
| "Math_atan2 PosInf (Num x) = Num (pi / 2)"
| "Math_atan2 NegInf (Num x) = Num (- (pi / 2))"
| "Math_atan2 PosInf PosInf = Num (pi / 4)"
| "Math_atan2 PosInf NegInf = Num (3 * pi / 4)"
| "Math_atan2 NegInf PosInf = Num (- (pi / 4))"
| "Math_atan2 NegInf NegInf = Num (- (3 * pi / 4))"

text \<open>\<open>Math.round\<close> rounds to the nearest integer, halves upwards.\<close>

fun Math_round :: "jsnum \<Rightarrow> jsnum" where
  "Math_round (Num x) = Num (of_int \<lfloor>x + 1 / 2\<rfloor>)"
| "Math_round n = n"

fun Math_ceil :: "jsnum \<Rightarrow> jsnum" where
  "Math_ceil (Num x) = Num (of_int \<lceil>x\<rceil>)"
| "Math_ceil n = n"


subsection \<open>Strings\<close>

text \<open>
  White space and line terminators, the characters removed by \<open>trim\<close>, skipped by
  \<open>parseFloat\<close> and \<open>parseInt\<close> and matched by the regular expression class \<open>\s\<close>.
\<close>

definition is_space :: "nat \<Rightarrow> bool" where
  "is_space c \<longleftrightarrow>
     c \<in> set [9, 10, 11, 12, 13, 32, 160, 5760, 8232, 8233, 8239, 8287, 12288, 65279]
     \<or> (8192 \<le> c \<and> c \<le> 8202)"

definition is_digit :: "nat \<Rightarrow> bool" where
  "is_digit c \<longleftrightarrow> 48 \<le> c \<and> c \<le> 57"

definition trim :: "jsstring \<Rightarrow> jsstring" where
  "trim s = rev (dropWhile is_space (rev (dropWhile is_space s)))"

text \<open>
  \<open>toLowerCase\<close> and \<open>toUpperCase\<close> follow the locale-insensitive Unicode case mappings.
  The tables below cover Basic Latin and Latin-1 Supplement, and characters outside
  these two blocks that the mappings send into them; any other code unit is left as it
  is, so the tables say nothing about the letters of other scripts. A mapping may change
  the length of the string: U+0130 (capital I with dot above) becomes the two code units
  U+0069 U+0307, and U+00DF (sharp s) is upper-cased to the two letters SS.
\<close>

definition lower_unit :: "nat \<Rightarrow> jsstring" where
  "lower_unit c =
     (if 65 \<le> c \<and> c \<le> 90 then [c + 32]
      else if 192 \<le> c \<and> c \<le> 222 \<and> c \<noteq> 215 then [c + 32]
      else if c = 304 then [105, 775]
      else if c = 376 then [255]
      else if c = 7838 then [223]
      else if c = 8490 then [107]
      else if c = 8491 then [229]
      else [c])"

definition toLowerCase :: "jsstring \<Rightarrow> jsstring" where
  "toLowerCase s = concat (map lower_unit s)"

definition upper_unit :: "nat \<Rightarrow> jsstring" where
  "upper_unit c =
     (if 97 \<le> c \<and> c \<le> 122 then [c - 32]
      else if 224 \<le> c \<and> c \<le> 254 \<and> c \<noteq> 247 then [c - 32]
      else if c = 223 then [83, 83]
      else if c = 181 then [924]
      else if c = 255 then [376]
      else if c = 305 then [73]
      else if c = 383 then [83]
      else if c = 329 then [700, 78]
      else if c = 496 then [74, 780]
      else if c = 7830 then [72, 817]
      else if c = 7831 then [84, 776]
      else if c = 7832 then [87, 778]
      else if c = 7833 then [89, 778]
      else if c = 7834 then [65, 702]
      else if c = 64256 then [70, 70]
      else if c = 64257 then [70, 73]
      else if c = 64258 then [70, 76]
      else if c = 64259 then [70, 70, 73]
      else if c = 64260 then [70, 70, 76]
      else if c = 64261 then [83, 84]
      else if c = 64262 then [83, 84]
      else [c])"

definition toUpperCase :: "jsstring \<Rightarrow> jsstring" where
  "toUpperCase s = concat (map upper_unit s)"

text \<open>\<open>a.includes(b)\<close>: \<open>b\<close> occurs in \<open>a\<close> as a contiguous run.\<close>

fun str_includes :: "jsstring \<Rightarrow> jsstring \<Rightarrow> bool" where
  "str_includes [] b = (b = [])"
| "str_includes (x # xs) b = (prefix b (x # xs) \<or> str_includes xs b)"

text \<open>\<open>s.split(',')\<close> and \<open>s.split(/\s+/)\<close>; both return at least one piece.\<close>

fun split_comma_from :: "jsstring \<Rightarrow> jsstring \<Rightarrow> jsstring list" where
  "split_comma_from [] cur = [cur]"
| "split_comma_from (c # cs) cur =
     (if c = 44 then cur # split_comma_from cs [] else split_comma_from cs (cur @ [c]))"

definition split_comma :: "jsstring \<Rightarrow> jsstring list" where
  "split_comma s = split_comma_from s []"

fun split_spaces_from :: "jsstring \<Rightarrow> jsstring \<Rightarrow> bool \<Rightarrow> jsstring list" where
  "split_spaces_from [] cur gap = [cur]"
| "split_spaces_from (c # cs) cur gap =
     (if is_space c
      then (if gap then split_spaces_from cs cur True else cur # split_spaces_from cs [] True)
      else split_spaces_from cs (cur @ [c]) False)"

definition split_spaces :: "jsstring \<Rightarrow> jsstring list" where
  "split_spaces s = split_spaces_from s [] False"

text \<open>
  \<open>arr.join(sep)\<close> on an array of strings.
\<close>

fun str_join :: "jsstring \<Rightarrow> jsstring list \<Rightarrow> jsstring" where
  "str_join sep [] = []"
| "str_join sep [x] = x"
| "str_join sep (x # y # ys) = x @ sep @ str_join sep (y # ys)"

subsection \<open>Parsing numbers\<close>

definition digits_value :: "jsstring \<Rightarrow> nat" where
  "digits_value ds = foldl (\<lambda>acc c. 10 * acc + (c - 48)) 0 ds"

text \<open>
  The sign prefix of a numeric literal: whether it is negative, and the rest.
\<close>

fun take_sign :: "jsstring \<Rightarrow> bool \<times> jsstring" where
  "take_sign (c # cs) = (if c = 45 then (True, cs) else if c = 43 then (False, cs) else (False, c # cs))"
| "take_sign [] = (False, [])"

text \<open>
  The exponent part of a decimal literal, \<open>e\<close> or \<open>E\<close>, an optional sign and at least one
  digit; a string that does not start with one contributes the exponent 0.
\<close>

definition exponent_part :: "jsstring \<Rightarrow> int" where
  "exponent_part s =
     (case s of
        [] \<Rightarrow> 0
      | c # cs \<Rightarrow>
          if c = 101 \<or> c = 69
          then (let (neg, ds) = take_sign cs; e = takeWhile is_digit ds
                in if e = [] then 0
                   else if neg then - int (digits_value e) else int (digits_value e))
          else 0)"

definition scale10 :: "real \<Rightarrow> int \<Rightarrow> real" where
  "scale10 m e = (if 0 \<le> e then m * 10 ^ nat e else m / 10 ^ nat (- e))"

text \<open>
  \<open>parseFloat\<close> on a string: skip leading white space, then read the longest prefix that
  is a decimal literal (or \<open>Infinity\<close>); NaN when there is none.
\<close>

definition parseFloat :: "jsstring \<Rightarrow> jsnum" where
  "parseFloat s =
     (let (neg, u) = take_sign (dropWhile is_space s)
      in if prefix (utf16 ''Infinity'') u then (if neg then NegInf else PosInf)
         else
           let ip = takeWhile is_digit u;
               r1 = dropWhile is_digit u;
               (fp, r2) = (case r1 of
                             [] \<Rightarrow> ([], r1)
                           | c # cs \<Rightarrow>
                               if c = 46 then (takeWhile is_digit cs, dropWhile is_digit cs)
                               else ([], r1))
           in if ip = [] \<and> fp = [] then NaN
              else
                let mant = real (digits_value ip) + real (digits_value fp) / 10 ^ length fp;
                    v = scale10 mant (exponent_part r2)
                in Num (if neg then - v else v))"

definition is_hex_digit :: "nat \<Rightarrow> bool" where
  "is_hex_digit c \<longleftrightarrow> is_digit c \<or> (97 \<le> c \<and> c \<le> 102) \<or> (65 \<le> c \<and> c \<le> 70)"

definition hex_value :: "jsstring \<Rightarrow> nat" where
  "hex_value ds =
     foldl (\<lambda>acc c. 16 * acc + (if is_digit c then c - 48 else if 97 \<le> c then c - 87 else c - 55)) 0 ds"

text \<open>
  \<open>parseInt\<close> on a string, without a radix argument: leading white space, a sign, then
  hexadecimal digits after \<open>0x\<close> or \<open>0X\<close>, decimal digits otherwise.
\<close>

definition parseInt :: "jsstring \<Rightarrow> jsnum" where
  "parseInt s =
     (let (neg, u) = take_sign (dropWhile is_space s);
          hex = (prefix (utf16 ''0x'') u \<or> prefix (utf16 ''0X'') u);
          ds = (if hex then takeWhile is_hex_digit (drop 2 u) else takeWhile is_digit u)
      in if ds = [] then NaN
         else
           let n = int (if hex then hex_value ds else digits_value ds)
           in Num (of_int (if neg then - n else n)))"

text \<open>
  Converting a number to a string. An integer below \<open>10\<^sup>2\<^sup>1\<close> in absolute value prints
  as its decimal digits. The digits printed for any other finite number depend on the
  binary64 value and are supplied by the parameter \<open>fmt\<close>.
\<close>

fun decimal_digits :: "nat \<Rightarrow> jsstring" where
  "decimal_digits n = (if n < 10 then [48 + n] else decimal_digits (n div 10) @ [48 + n mod 10])"

declare decimal_digits.simps [simp del]

definition numberToString :: "(real \<Rightarrow> jsstring) \<Rightarrow> jsnum \<Rightarrow> jsstring" where
  "numberToString fmt n =
     (case n of
        NaN \<Rightarrow> utf16 ''NaN''
      | PosInf \<Rightarrow> utf16 ''Infinity''
      | NegInf \<Rightarrow> utf16 ''-Infinity''
      | Num x \<Rightarrow>
          if of_int \<lfloor>x\<rfloor> = x \<and> \<bar>x\<bar> < 10 ^ 21
          then (if x < 0 then 45 # decimal_digits (nat (- \<lfloor>x\<rfloor>)) else decimal_digits (nat \<lfloor>x\<rfloor>))
          else fmt x)"

text \<open>\<open>String(v)\<close> for the values a record or a parameter set can hold.\<close>

fun toString :: "(real \<Rightarrow> jsstring) \<Rightarrow> jsval \<Rightarrow> jsstring" where
  "toString fmt (JString s) = s"
| "toString fmt (JNumber n) = numberToString fmt n"
| "toString fmt (JBool b) = (if b then utf16 ''true'' else utf16 ''false'')"
| "toString fmt JNull = utf16 ''null''"
| "toString fmt JUndefined = utf16 ''undefined''"
| "toString fmt (JCoords a b) = utf16 ''[object Object]''"


section \<open>Fuzzy search utilities (fuzzy-search.js)\<close>

subsection \<open>Edit distance and similarity\<close>

text \<open>
  \<open>levenshteinDistance\<close> fills a matrix row by row. \<open>fill_row c str2 prev left\<close> computes the
  cells of one row after its first: \<open>prev\<close> is the part of the row above starting at the
  diagonal neighbour, \<open>left\<close> the cell just written.
\<close>

fun fill_row :: "nat \<Rightarrow> jsstring \<Rightarrow> nat list \<Rightarrow> nat \<Rightarrow> nat list" where
  "fill_row c (d # ds) (diag # up # rest) left =
     (let v = (if c = d then diag else min (min (diag + 1) (left + 1)) (up + 1))
      in v # fill_row c ds (up # rest) v)"
| "fill_row c _ _ left = []"

definition next_row :: "nat list \<Rightarrow> nat \<times> nat \<Rightarrow> jsstring \<Rightarrow> nat list" where
  "next_row prev ic str2 = fst ic # fill_row (snd ic) str2 prev (fst ic)"

definition levenshteinDistance :: "jsstring \<Rightarrow> jsstring \<Rightarrow> nat" where
  "levenshteinDistance str1 str2 =
     (if str1 = [] \<or> str2 = [] then max (length str1) (length str2)
      else last (foldl (\<lambda>prev ic. next_row prev ic str2)
                       [0 ..< length str2 + 1]
                       (zip [1 ..< length str1 + 1] str1)))"

text \<open>
  \<open>calculateSimilarity\<close>: the guard on an empty argument comes first, so the test
  \<open>maxLength === 0\<close> after it is never reached with two strings. The longer length is
  taken from the arguments as given, the distance from their lower-cased forms.
\<close>

definition calculateSimilarity :: "jsstring \<Rightarrow> jsstring \<Rightarrow> real" where
  "calculateSimilarity str1 str2 =
     (if str1 = [] \<or> str2 = [] then 0
      else
        let maxLength = max (length str1) (length str2)
        in if maxLength = 0 then 100
           else
             let distance = levenshteinDistance (toLowerCase str1) (toLowerCase str2)
             in ((real maxLength - real distance) / real maxLength) * 100)"

definition isFuzzyMatch :: "jsstring \<Rightarrow> jsstring \<Rightarrow> jsnum \<Rightarrow> bool" where
  "isFuzzyMatch str1 str2 threshold = js_ge (Num (calculateSimilarity str1 str2)) threshold"

subsection \<open>Identifiers\<close>

text \<open>
  The identifier arguments are text columns of a record or the query text: a string, or
  \<open>None\<close> for \<open>null\<close> and \<open>undefined\<close>.
\<close>

definition normalizePhoneNumber :: "jsstring option \<Rightarrow> jsstring" where
  "normalizePhoneNumber phoneNumber =
     (case phoneNumber of
        None \<Rightarrow> []
      | Some s \<Rightarrow> if s = [] then [] else filter is_digit s)"

definition isPhoneSimilar :: "jsstring option \<Rightarrow> jsstring option \<Rightarrow> jsnum \<Rightarrow> bool" where
  "isPhoneSimilar phone1 phone2 threshold =
     (let norm1 = normalizePhoneNumber phone1;
          norm2 = normalizePhoneNumber phone2
      in if norm1 = norm2 then True
         else if (str_includes norm1 norm2 \<or> str_includes norm2 norm1)
                 \<and> 7 \<le> min (length norm1) (length norm2) then True
         else js_ge (Num (calculateSimilarity norm1 norm2)) threshold)"

definition normalizeIMEI :: "jsstring option \<Rightarrow> jsstring" where
  "normalizeIMEI imei =
     (case imei of
        None \<Rightarrow> []
      | Some s \<Rightarrow> if s = [] then [] else toUpperCase (filter (\<lambda>c. \<not> is_space c \<and> c \<noteq> 45) s))"

definition isIMEISimilar :: "jsstring option \<Rightarrow> jsstring option \<Rightarrow> jsnum \<Rightarrow> bool" where
  "isIMEISimilar imei1 imei2 threshold =
     (let norm1 = normalizeIMEI imei1;
          norm2 = normalizeIMEI imei2
      in if norm1 = norm2 then True
         else js_ge (Num (calculateSimilarity norm1 norm2)) threshold)"

subsection \<open>Sorting with a comparator\<close>

text \<open>
  \<open>Array.prototype.sort\<close> is stable. It is modelled as an insertion sort: an element
  moves behind those the comparator puts strictly before it. A comparator result of NaN
  counts as 0. For a comparator that is not a consistent order the result of the engine
  is some permutation of the array; the model fixes this one.
\<close>

fun insert_by :: "('a \<Rightarrow> 'a \<Rightarrow> jsnum) \<Rightarrow> 'a \<Rightarrow> 'a list \<Rightarrow> 'a list" where
  "insert_by cmp x [] = [x]"
| "insert_by cmp x (y # ys) =
     (if js_gt (cmp x y) (Num 0) then y # insert_by cmp x ys else x # y # ys)"

definition sort_by :: "('a \<Rightarrow> 'a \<Rightarrow> jsnum) \<Rightarrow> 'a list \<Rightarrow> 'a list" where
  "sort_by cmp xs = foldr (insert_by cmp) xs []"

text \<open>The numeric value of a property that the code has set to a number.\<close>

fun num_of :: "jsval \<Rightarrow> jsnum" where
  "num_of (JNumber n) = n"
| "num_of _ = NaN"

subsection \<open>Multi-field search\<close>

text \<open>
  The inner loop of \<open>multiFieldFuzzySearch\<close> over the field names: the best similarity
  so far and the field it came from (\<open>None\<close> for \<open>null\<close>).
\<close>

definition best_field_step ::
  "(real \<Rightarrow> jsstring) \<Rightarrow> jsstring \<Rightarrow> jsobj \<Rightarrow> real \<times> string option \<Rightarrow> string \<Rightarrow> real \<times> string option"
where
  "best_field_step fmt searchTerm result best field =
     (let fieldValue = result field
      in if truthy fieldValue
         then (let similarity = calculateSimilarity searchTerm (toString fmt fieldValue)
               in if fst best < similarity then (similarity, Some field) else best)
         else best)"

definition best_field ::
  "(real \<Rightarrow> jsstring) \<Rightarrow> jsstring \<Rightarrow> string list \<Rightarrow> jsobj \<Rightarrow> real \<times> string option"
where
  "best_field fmt searchTerm fields result =
     foldl (best_field_step fmt searchTerm result) (0, None) fields"

definition score_result ::
  "(real \<Rightarrow> jsstring) \<Rightarrow> jsstring \<Rightarrow> string list \<Rightarrow> jsnum \<Rightarrow> jsobj \<Rightarrow> jsobj list"
where
  "score_result fmt searchTerm fields threshold result =
     (let (bestSimilarity, bestField) = best_field fmt searchTerm fields result
      in if js_ge (Num bestSimilarity) threshold
         then [result(''_similarity'' := JNumber (Num bestSimilarity),
                      ''_matchField'' := (case bestField of
                                           None \<Rightarrow> JNull
                                         | Some f \<Rightarrow> JString (utf16 f)))]
         else [])"

definition multiFieldFuzzySearch ::
  "(real \<Rightarrow> jsstring) \<Rightarrow> jsobj list \<Rightarrow> jsstring \<Rightarrow> string list \<Rightarrow> jsnum \<Rightarrow> jsobj list"
where
  "multiFieldFuzzySearch fmt results searchTerm fields threshold =
     (if searchTerm = [] \<or> results = [] then results
      else sort_by (\<lambda>a b. js_sub (num_of (b ''_similarity'')) (num_of (a ''_similarity'')))
             (concat (map (score_result fmt searchTerm fields threshold) results)))"

subsection \<open>Soundex\<close>

definition soundex_mapping :: "nat \<Rightarrow> nat" where
  "soundex_mapping c =
     (if c \<in> set (utf16 ''BFPV'') then 49
      else if c \<in> set (utf16 ''CGJKQSXZ'') then 50
      else if c \<in> set (utf16 ''DT'') then 51
      else if c = 76 then 52
      else if c \<in> set (utf16 ''MN'') then 53
      else if c = 82 then 54
      else 48)"

fun soundex_loop :: "jsstring \<Rightarrow> jsstring \<Rightarrow> nat \<Rightarrow> jsstring" where
  "soundex_loop [] soundexCode prevCode = soundexCode"
| "soundex_loop (c # cs) soundexCode prevCode =
     (if length soundexCode < 4
      then
        (let currentCode = soundex_mapping c
         in soundex_loop cs
              (if currentCode \<noteq> 48 \<and> currentCode \<noteq> prevCode
               then soundexCode @ [currentCode] else soundexCode)
              (if currentCode \<noteq> 48 then currentCode else prevCode))
      else soundexCode)"

definition soundex :: "jsstring \<Rightarrow> jsstring" where
  "soundex str0 =
     (if str0 = [] then []
      else
        case filter (\<lambda>c. 65 \<le> c \<and> c \<le> 90) (toUpperCase str0) of
          [] \<Rightarrow> []
        | firstLetter # rest \<Rightarrow>
            (let code = soundex_loop rest [firstLetter] (soundex_mapping firstLetter)
             in code @ replicate (4 - length code) 48))"

definition isSoundexMatch :: "jsstring \<Rightarrow> jsstring \<Rightarrow> bool" where
  "isSoundexMatch str1 str2 = (soundex str1 = soundex str2)"

section \<open>Geospatial search (geospatial-search.js)\<close>

definition toRadians :: "jsnum \<Rightarrow> jsnum" where
  "toRadians degrees = js_mul degrees (js_div (Num pi) (Num 180))"

text \<open>
  \<open>calculateDistance\<close>: the guard tests each coordinate for truthiness, so the number 0
  and NaN both count as a missing coordinate.
\<close>

definition calculateDistance :: "jsnum \<Rightarrow> jsnum \<Rightarrow> jsnum \<Rightarrow> jsnum \<Rightarrow> jsnum" where
  "calculateDistance lat1 lon1 lat2 lon2 =
     (if \<not> num_truthy lat1 \<or> \<not> num_truthy lon1 \<or> \<not> num_truthy lat2 \<or> \<not> num_truthy lon2
      then PosInf
      else
        let R = Num 6371;
            dLat = toRadians (js_sub lat2 lat1);
            dLon = toRadians (js_sub lon2 lon1);
            a = js_add
                  (js_mul (Math_sin (js_div dLat (Num 2))) (Math_sin (js_div dLat (Num 2))))
                  (js_mul
                     (js_mul
                        (js_mul (Math_cos (toRadians lat1)) (Math_cos (toRadians lat2)))
                        (Math_sin (js_div dLon (Num 2))))
                     (Math_sin (js_div dLon (Num 2))));
            c = js_mul (Num 2) (Math_atan2 (Math_sqrt a) (Math_sqrt (js_sub (Num 1) a)));
            distance = js_mul R c
        in distance)"

definition out_of_range :: "jsnum \<Rightarrow> jsnum \<Rightarrow> bool" where
  "out_of_range lat lon \<longleftrightarrow>
     isNaN lat \<or> isNaN lon \<or> js_lt lat (Num (- 90)) \<or> js_gt lat (Num 90)
     \<or> js_lt lon (Num (- 180)) \<or> js_gt lon (Num 180)"

definition parseLocation :: "jsval \<Rightarrow> (jsnum \<times> jsnum) option" where
  "parseLocation locationStr =
     (case locationStr of
        JString s \<Rightarrow>
          if s = [] then None
          else
            (case split_comma (trim s) of
               [p0, p1] \<Rightarrow>
                 (let lat = parseFloat (trim p0);
                      lon = parseFloat (trim p1)
                  in if out_of_range lat lon then None else Some (lat, lon))
             | _ \<Rightarrow> None)
      | _ \<Rightarrow> None)"

text \<open>
  \<open>parseFloat\<close> applied to a property value, which is first converted to a string. A
  number converts to a string that parses back to the same number.
\<close>

fun parseFloat_val :: "jsval \<Rightarrow> jsnum" where
  "parseFloat_val (JString s) = parseFloat s"
| "parseFloat_val (JNumber n) = n"
| "parseFloat_val _ = NaN"

fun first_parsed :: "jsobj \<Rightarrow> string list \<Rightarrow> (jsnum \<times> jsnum) option" where
  "first_parsed record [] = None"
| "first_parsed record (field # fields) =
     (if truthy (record field)
      then (case parseLocation (record field) of
              Some coords \<Rightarrow> Some coords
            | None \<Rightarrow> first_parsed record fields)
      else first_parsed record fields)"

definition coordinateFields :: "string list" where
  "coordinateFields = [''coordinates'', ''location_coordinates'', ''lat_lon'', ''position'']"

definition extractCoordinates :: "jsobj \<Rightarrow> (jsnum \<times> jsnum) option" where
  "extractCoordinates record =
     (case first_parsed record coordinateFields of
        Some coords \<Rightarrow> Some coords
      | None \<Rightarrow>
          if truthy (record ''latitude'') \<and> truthy (record ''longitude'')
          then
            (let lat = parseFloat_val (record ''latitude'');
                 lon = parseFloat_val (record ''longitude'')
             in if \<not> isNaN lat \<and> \<not> isNaN lon \<and> js_ge lat (Num (- 90)) \<and> js_le lat (Num 90)
                   \<and> js_ge lon (Num (- 180)) \<and> js_le lon (Num 180)
                then Some (lat, lon) else None)
          else None)"

definition proximity_entry :: "jsnum \<Rightarrow> jsnum \<Rightarrow> jsnum \<Rightarrow> jsobj \<Rightarrow> jsobj list" where
  "proximity_entry centerLat centerLon radiusKm record =
     (case extractCoordinates record of
        None \<Rightarrow> []
      | Some (lat, lon) \<Rightarrow>
          (let distance = calculateDistance centerLat centerLon lat lon
           in if js_le distance radiusKm
              then [record(''distance_km'' :=
                             JNumber (js_div (Math_round (js_mul distance (Num 100))) (Num 100)),
                           ''coordinates'' := JCoords lat lon)]
              else []))"

definition filterByProximity :: "jsobj list \<Rightarrow> jsnum \<Rightarrow> jsnum \<Rightarrow> jsnum \<Rightarrow> jsobj list" where
  "filterByProximity records centerLat centerLon radiusKm =
     sort_by (\<lambda>a b. js_sub (num_of (a ''distance_km'')) (num_of (b ''distance_km'')))
       (concat (map (proximity_entry centerLat centerLon radiusKm) records))"

record bounding_box =
  minLat :: jsnum
  maxLat :: jsnum
  minLon :: jsnum
  maxLon :: jsnum

definition createBoundingBox :: "jsnum \<Rightarrow> jsnum \<Rightarrow> jsnum \<Rightarrow> bounding_box" where
  "createBoundingBox centerLat centerLon radiusKm =
     (let latDegreePerKm = js_div (Num 1) (Num 111.32);
          lonDegreePerKm = js_div (Num 1) (js_mul (Num 111.32) (Math_cos (toRadians centerLat)));
          latOffset = js_mul radiusKm latDegreePerKm;
          lonOffset = js_mul radiusKm lonDegreePerKm
      in \<lparr> minLat = js_sub centerLat latOffset,
           maxLat = js_add centerLat latOffset,
           minLon = js_sub centerLon lonOffset,
           maxLon = js_add centerLon lonOffset \<rparr>)"

text \<open>A point lies in a box when it passes the range test \<open>BETWEEN min AND max\<close> on both axes.\<close>

definition in_box :: "bounding_box \<Rightarrow> jsnum \<Rightarrow> jsnum \<Rightarrow> bool" where
  "in_box b lat lon \<longleftrightarrow>
     js_le (minLat b) lat \<and> js_le lat (maxLat b) \<and> js_le (minLon b) lon \<and> js_le lon (maxLon b)"

section \<open>Query optimisation (query-optimizer.js)\<close>

text \<open>
  The parameters of a request, \<open>req.query\<close>: each is absent or a string.
\<close>

type_synonym query_params = "string \<Rightarrow> jsstring option"

definition query_obj :: "query_params \<Rightarrow> jsobj" where
  "query_obj params = (\<lambda>k. case params k of None \<Rightarrow> JUndefined | Some s \<Rightarrow> JString s)"

text \<open>\<open>v || d\<close> for a number \<open>v\<close>.\<close>

definition num_or :: "jsnum \<Rightarrow> jsnum \<Rightarrow> jsnum" where
  "num_or v d = (if num_truthy v then v else d)"

text \<open>\<open>v || 'd'\<close> as an element of the key: the value as a string when it is truthy.\<close>

definition key_part :: "(real \<Rightarrow> jsstring) \<Rightarrow> jsval \<Rightarrow> string \<Rightarrow> jsstring" where
  "key_part fmt v d = (if truthy v then toString fmt v else utf16 d)"

definition generateCacheKey :: "(real \<Rightarrow> jsstring) \<Rightarrow> jsobj \<Rightarrow> jsstring" where
  "generateCacheKey fmt params =
     (let keyParts =
            [ key_part fmt (params ''query'') ''no-query'',
              key_part fmt (params ''type'') ''all'',
              key_part fmt (params ''country'') ''no-country'',
              key_part fmt (params ''region'') ''no-region'',
              key_part fmt (params ''city'') ''no-city'',
              key_part fmt (params ''fuzzy'') ''false'',
              key_part fmt (params ''threshold'') ''70'',
              key_part fmt (params ''phonetic'') ''false'',
              key_part fmt (params ''lat'') ''no-lat'',
              key_part fmt (params ''lon'') ''no-lon'',
              key_part fmt (params ''radius'') ''10'',
              key_part fmt (params ''page'') ''1'',
              key_part fmt (params ''limit'') ''50'' ]
      in utf16 ''search:'' @ str_join (utf16 '':'') keyParts)"

text \<open>
  \<open>results.slice(start, end)\<close>: an index is truncated to an integer, counted from the end
  when negative, and clamped to the length.
\<close>

definition slice_index :: "nat \<Rightarrow> jsnum \<Rightarrow> nat" where
  "slice_index len n =
     (case n of
        NaN \<Rightarrow> 0
      | NegInf \<Rightarrow> 0
      | PosInf \<Rightarrow> len
      | Num x \<Rightarrow>
          (let i = (if x < 0 then \<lceil>x\<rceil> else \<lfloor>x\<rfloor>)
           in if i < 0 then nat (max (int len + i) 0) else min (nat i) len))"

definition slice :: "'a list \<Rightarrow> jsnum \<Rightarrow> jsnum \<Rightarrow> 'a list" where
  "slice xs start stop =
     (let k = slice_index (length xs) start;
          final = slice_index (length xs) stop
      in take (final - k) (drop k xs))"

record pagination =
  current_page :: jsnum
  total_pages :: jsnum
  total_items :: nat
  items_per_page :: jsnum
  has_next :: bool
  has_previous :: bool
  next_page :: "jsnum option"
  previous_page :: "jsnum option"

record 'a paginated =
  data :: "'a list"
  pagination :: pagination

definition paginateResults :: "'a list \<Rightarrow> jsnum \<Rightarrow> jsnum \<Rightarrow> 'a paginated" where
  "paginateResults results page limit =
     (let totalItems = length results;
          totalPages = Math_ceil (js_div (Num (real totalItems)) limit);
          currentPage = Math_max (Num 1) (Math_min page totalPages);
          offset = js_mul (js_sub currentPage (Num 1)) limit;
          paginatedResults = slice results offset (js_add offset limit)
      in \<lparr> data = paginatedResults,
           pagination =
             \<lparr> current_page = currentPage,
               total_pages = totalPages,
               total_items = totalItems,
               items_per_page = limit,
               has_next = js_lt currentPage totalPages,
               has_previous = js_gt currentPage (Num 1),
               next_page = (if js_lt currentPage totalPages
                            then Some (js_add currentPage (Num 1)) else None),
               previous_page = (if js_gt currentPage (Num 1)
                                then Some (js_sub currentPage (Num 1)) else None) \<rparr> \<rparr>)"

definition validatePaginationParams :: "jsstring \<Rightarrow> jsstring \<Rightarrow> jsnum \<times> jsnum" where
  "validatePaginationParams page limit =
     (let validatedPage = Math_max (Num 1) (num_or (parseInt page) (Num 1));
          validatedLimit = Math_min (Num 100) (Math_max (Num 1) (num_or (parseInt limit) (Num 50)))
      in (validatedPage, validatedLimit))"

text \<open>
  \<open>optimizeSearchParams\<close> copies the parameters and rewrites four of them in turn. The
  coordinates are examined only when both are present and non-empty; the copy keeps the
  strings, the parsed numbers are local to the check.
\<close>

definition optimizeSearchParams :: "query_params \<Rightarrow> jsobj" where
  "optimizeSearchParams params =
     (let o0 = query_obj params;
          o1 = (case params ''query'' of
                  None \<Rightarrow> o0
                | Some q \<Rightarrow>
                    if q = [] then o0
                    else o0(''query'' := JString (toLowerCase (trim q))));
          o2 = (case params ''threshold'' of
                  None \<Rightarrow> o1
                | Some t \<Rightarrow>
                    if t = [] then o1
                    else o1(''threshold'' :=
                              JNumber (Math_min (Num 100)
                                         (Math_max (Num 0) (num_or (parseInt t) (Num 70))))));
          o3 = (case params ''radius'' of
                  None \<Rightarrow> o2
                | Some r \<Rightarrow>
                    if r = [] then o2
                    else o2(''radius'' :=
                              JNumber (Math_min (Num 1000)
                                         (Math_max (Num 0.1) (num_or (parseFloat r) (Num 10))))))
      in if truthy (o3 ''lat'') \<and> truthy (o3 ''lon'')
         then
           (let lat = parseFloat_val (o3 ''lat'');
                lon = parseFloat_val (o3 ''lon'')
            in if out_of_range lat lon
               then o3(''lat'' := JUndefined, ''lon'' := JUndefined)
               else o3)
         else o3)"

section \<open>The search request (server.js, GET /api/search)\<close>

text \<open>
  What the handler takes from outside: the formatting of non-integer numbers, the time
  value of a timestamp (\<open>new Date(v)\<close>), the errors reported by the validation of the
  advanced filters (which reads the clock), and the outcome of the two scans of the
  record store, each an error message or the rows. The response time, the analytics
  event and the summary of the filters are not part of the model.
\<close>

record search_env =
  fmt :: "real \<Rightarrow> jsstring"
  dateValue :: "jsval \<Rightarrow> jsnum"
  filterErrors :: "jsstring list"
  scanLost :: "jsstring + jsobj list"
  scanFound :: "jsstring + jsobj list"

record search_info =
  si_query :: "jsstring option"
  si_type :: "jsstring option"
  fuzzy_enabled :: bool
  phonetic_enabled :: bool
  geospatial_enabled :: bool
  si_threshold :: jsnum
  radius_km :: "jsnum option"
  center_coordinates :: "(jsnum \<times> jsnum) option"
  total_results :: nat

record cache_entry =
  combined_results :: "jsobj list"
  cached_info :: search_info

type_synonym search_cache = "jsstring \<Rightarrow> cache_entry option"

datatype response =
    Status400 jsstring "jsstring list"
  | Status500 jsstring
  | JsonLostFound "jsobj list" "jsobj list" search_info
  | JsonPage "jsobj paginated" search_info bool

text \<open>
  A parameter as the handler reads it: the default of the destructuring stands in when
  the parameter is absent. \<open>param q k\<close> reads a parameter that has no default.
\<close>

definition param_or :: "query_params \<Rightarrow> string \<Rightarrow> string \<Rightarrow> jsstring" where
  "param_or q k d = (case q k of None \<Rightarrow> utf16 d | Some s \<Rightarrow> s)"

definition param :: "query_params \<Rightarrow> string \<Rightarrow> jsstring" where
  "param q k = (case q k of None \<Rightarrow> [] | Some s \<Rightarrow> s)"

definition present :: "query_params \<Rightarrow> string \<Rightarrow> bool" where
  "present q k = (case q k of None \<Rightarrow> False | Some s \<Rightarrow> s \<noteq> [])"

definition useGeospatial :: "query_params \<Rightarrow> bool" where
  "useGeospatial q \<longleftrightarrow> present q ''lat'' \<and> present q ''lon''"

definition hasAdvancedFilters :: "query_params \<Rightarrow> bool" where
  "hasAdvancedFilters q \<longleftrightarrow>
     list_ex (present q)
       [''dateFrom'', ''dateTo'', ''timeRange'', ''status'', ''deviceType'', ''brand'',
        ''country'', ''region'', ''city'', ''imei'', ''phoneNumber'']"

definition criteria_missing :: "query_params \<Rightarrow> bool" where
  "criteria_missing q \<longleftrightarrow>
     \<not> present q ''query'' \<and> \<not> present q ''country'' \<and> \<not> present q ''region''
     \<and> \<not> present q ''city'' \<and> \<not> useGeospatial q \<and> \<not> hasAdvancedFilters q"

definition useCache :: "query_params \<Rightarrow> bool" where
  "useCache q \<longleftrightarrow> param_or q ''cache'' ''true'' = utf16 ''true''"

definition useFuzzy :: "query_params \<Rightarrow> bool" where
  "useFuzzy q \<longleftrightarrow> param_or q ''fuzzy'' ''true'' = utf16 ''true''"

definition usePhonetic :: "query_params \<Rightarrow> bool" where
  "usePhonetic q \<longleftrightarrow> param_or q ''phonetic'' ''false'' = utf16 ''true''"

definition similarityThreshold :: "query_params \<Rightarrow> jsnum" where
  "similarityThreshold q = num_or (parseInt (param_or q ''threshold'' ''70'')) (Num 70)"

definition searchRadius :: "query_params \<Rightarrow> jsnum" where
  "searchRadius q = num_or (parseFloat (param_or q ''radius'' ''10'')) (Num 10)"

definition type_is :: "query_params \<Rightarrow> string \<Rightarrow> bool" where
  "type_is q t \<longleftrightarrow> q ''type'' = Some (utf16 t)"

text \<open>The flags set while the text condition of the scan is chosen.\<close>

definition needsFuzzyProcessing :: "query_params \<Rightarrow> bool" where
  "needsFuzzyProcessing q \<longleftrightarrow>
     present q ''query'' \<and>
     (if type_is q ''phone'' then useFuzzy q
      else if type_is q ''imei'' then useFuzzy q
      else if type_is q ''email'' then False
      else (useFuzzy q \<or> usePhonetic q) \<and> useFuzzy q)"

definition needsPhoneticProcessing :: "query_params \<Rightarrow> bool" where
  "needsPhoneticProcessing q \<longleftrightarrow>
     present q ''query'' \<and>
     (if type_is q ''phone'' \<or> type_is q ''imei'' \<or> type_is q ''email'' then False
      else (useFuzzy q \<or> usePhonetic q) \<and> usePhonetic q)"

text \<open>A text column of a row: a string, or \<open>None\<close> for \<open>null\<close>.\<close>

fun text_of :: "jsval \<Rightarrow> jsstring option" where
  "text_of (JString s) = Some s"
| "text_of _ = None"

text \<open>
  The fuzzy step, the same for both categories up to the names of the contact column
  and of the fields searched.
\<close>

definition fuzzyStep ::
  "search_env \<Rightarrow> query_params \<Rightarrow> string \<Rightarrow> string list \<Rightarrow> jsobj list \<Rightarrow> jsobj list"
where
  "fuzzyStep env q contactField searchFields results =
     (if useFuzzy q \<and> needsFuzzyProcessing q \<and> present q ''query''
      then
        (let query = param q ''query''
         in if type_is q ''phone''
            then filter (\<lambda>row.
                   isPhoneSimilar (Some query) (text_of (row ''phone_number'')) (similarityThreshold q)
                   \<or> isPhoneSimilar (Some query) (text_of (row contactField)) (similarityThreshold q))
                   results
            else if type_is q ''imei''
            then filter (\<lambda>row.
                   isIMEISimilar (Some query) (text_of (row ''imei'')) (similarityThreshold q))
                   results
            else multiFieldFuzzySearch (fmt env) results query searchFields (similarityThreshold q))
      else results)"

definition phonetic_field_match :: "jsstring \<Rightarrow> jsobj \<Rightarrow> string \<Rightarrow> bool" where
  "phonetic_field_match queryPhonetic row field =
     (case row field of
        JString s \<Rightarrow> s \<noteq> [] \<and> list_ex (\<lambda>word. soundex word = queryPhonetic) (split_spaces s)
      | _ \<Rightarrow> False)"

definition phoneticStep :: "query_params \<Rightarrow> string list \<Rightarrow> jsobj list \<Rightarrow> jsobj list" where
  "phoneticStep q fieldsToCheck results =
     (if usePhonetic q \<and> needsPhoneticProcessing q \<and> present q ''query''
      then
        (let queryPhonetic = soundex (param q ''query'')
         in filter (\<lambda>row. list_ex (phonetic_field_match queryPhonetic row) fieldsToCheck) results)
      else results)"

definition geospatialStep :: "query_params \<Rightarrow> jsobj list \<Rightarrow> jsobj list" where
  "geospatialStep q results =
     (if useGeospatial q
      then
        (let centerLat = parseFloat (param q ''lat'');
             centerLon = parseFloat (param q ''lon'')
         in filterByProximity results centerLat centerLon (searchRadius q))
      else results)"

text \<open>
  The rows of the lost category pass the fuzzy, the phonetic and the geospatial step.
\<close>

definition lostResults :: "search_env \<Rightarrow> query_params \<Rightarrow> jsobj list \<Rightarrow> jsobj list" where
  "lostResults env q rows =
     geospatialStep q
       (phoneticStep q [''contact_name'', ''brand'', ''model'', ''description'', ''location_lost'']
          (fuzzyStep env q ''contact_phone''
             [''phone_number'', ''imei'', ''email'', ''brand'', ''model'', ''description'',
              ''location_lost'', ''contact_name'']
             rows))"

text \<open>
  The rows of the found category pass the fuzzy and the phonetic step; the handler has
  no geospatial step for them.
\<close>

definition foundResults :: "search_env \<Rightarrow> query_params \<Rightarrow> jsobj list \<Rightarrow> jsobj list" where
  "foundResults env q foundRows =
     phoneticStep q [''finder_name'', ''brand'', ''model'', ''description'', ''location_found'']
       (fuzzyStep env q ''finder_contact''
          [''phone_number'', ''imei'', ''email'', ''brand'', ''model'', ''description'',
           ''location_found'', ''finder_name'']
          foundRows)"

definition combined_order :: "search_env \<Rightarrow> query_params \<Rightarrow> jsobj \<Rightarrow> jsobj \<Rightarrow> jsnum" where
  "combined_order env q a b =
     (if useGeospatial q \<and> a ''distance_km'' \<noteq> JUndefined \<and> b ''distance_km'' \<noteq> JUndefined
      then js_sub (num_of (a ''distance_km'')) (num_of (b ''distance_km''))
      else js_sub (dateValue env (b ''created_at'')) (dateValue env (a ''created_at'')))"

definition combinedResults ::
  "search_env \<Rightarrow> query_params \<Rightarrow> jsobj list \<Rightarrow> jsobj list \<Rightarrow> jsobj list"
where
  "combinedResults env q results found =
     sort_by (combined_order env q)
       (map (\<lambda>item. item(''source'' := JString (utf16 ''lost_phones''))) results
        @ map (\<lambda>item. item(''source'' := JString (utf16 ''found_phones''))) found)"

definition searchInfo :: "query_params \<Rightarrow> nat \<Rightarrow> search_info" where
  "searchInfo q n =
     \<lparr> si_query = q ''query'',
       si_type = q ''type'',
       fuzzy_enabled = useFuzzy q,
       phonetic_enabled = usePhonetic q,
       geospatial_enabled = useGeospatial q,
       si_threshold = similarityThreshold q,
       radius_km = (if useGeospatial q then Some (searchRadius q) else None),
       center_coordinates =
         (if useGeospatial q
          then Some (parseFloat (param q ''lat''), parseFloat (param q ''lon''))
          else None),
       total_results = n \<rparr>"

text \<open>
  The handler: the response and the cache after the request. The steps are, in order,
  the validation of the filters, the test for a search criterion, the cache lookup, the
  scan of the lost category, the scan of the found category, the merge, the cache write
  and the pagination.
\<close>

definition apiSearch ::
  "search_env \<Rightarrow> search_cache \<Rightarrow> query_params \<Rightarrow> response \<times> search_cache"
where
  "apiSearch env cache q =
     (if filterErrors env \<noteq> [] then
        (Status400 (utf16 ''Invalid filter parameters'') (filterErrors env), cache)
      else
        let optimizedParams = optimizeSearchParams q;
            (validPage, validLimit) =
               validatePaginationParams (param_or q ''page'' ''1'') (param_or q ''limit'' ''50'');
            cacheKey = generateCacheKey (fmt env) optimizedParams
        in if criteria_missing q then
             (Status400
                (utf16 ''Search query, location filter, coordinates, or advanced filters are required'')
                [], cache)
           else
             case (if useCache q then cache cacheKey else None) of
               Some cachedResults \<Rightarrow>
                 (JsonPage (paginateResults (combined_results cachedResults) validPage validLimit)
                    (cached_info cachedResults) True, cache)
             | None \<Rightarrow>
                 (case scanLost env of
                    Inl err \<Rightarrow> (Status500 err, cache)
                  | Inr rows \<Rightarrow>
                      let results = lostResults env q rows
                      in (case scanFound env of
                            Inl err \<Rightarrow>
                              (JsonLostFound results [] (searchInfo q (length results)), cache)
                          | Inr foundRows \<Rightarrow>
                              let combined = combinedResults env q results (foundResults env q foundRows);
                                  info = searchInfo q (length combined);
                                  cache' = (if useCache q
                                            then cache(cacheKey \<mapsto>
                                                   \<lparr> combined_results = combined, cached_info = info \<rparr>)
                                            else cache)
                              in (JsonPage (paginateResults combined validPage validLimit) info False,
                                  cache'))))"

text \<open>Whether a response carries a success status.\<close>

fun is_success :: "response \<Rightarrow> bool" where
  "is_success (Status400 e d) = False"
| "is_success (Status500 e) = False"
| "is_success (JsonLostFound l f i) = True"
| "is_success (JsonPage p i c) = True"

text \<open>A coordinate pair in the valid geographic range.\<close>

definition valid_pair :: "jsnum \<Rightarrow> jsnum \<Rightarrow> bool" where
  "valid_pair lat lon \<longleftrightarrow>
     (case (lat, lon) of
        (Num x, Num y) \<Rightarrow> - 90 \<le> x \<and> x \<le> 90 \<and> - 180 \<le> y \<and> y \<le> 180
      | _ \<Rightarrow> False)"

section \<open>Example inputs\<close>

text \<open>Requests.\<close>

definition query_only :: query_params where
  "query_only = Map.empty(''query'' \<mapsto> utf16 ''iphone'')"

definition query_fuzzy_true :: query_params where
  "query_fuzzy_true = Map.empty(''query'' \<mapsto> utf16 ''iphone'', ''fuzzy'' \<mapsto> utf16 ''true'')"

definition query_fuzzy_false :: query_params where
  "query_fuzzy_false = Map.empty(''query'' \<mapsto> utf16 ''iphone'', ''fuzzy'' \<mapsto> utf16 ''false'')"

definition latitude_only :: query_params where
  "latitude_only = Map.empty(''lat'' \<mapsto> utf16 ''95'')"

definition manila_query :: query_params where
  "manila_query = Map.empty(''lat'' \<mapsto> utf16 ''14.60'', ''lon'' \<mapsto> utf16 ''120.98'')"

definition nearby_query :: query_params where
  "nearby_query =
     Map.empty(''lat'' \<mapsto> utf16 ''14.60'', ''lon'' \<mapsto> utf16 ''120.98'', ''radius'' \<mapsto> utf16 ''5'')"

text \<open>Rows of the store.\<close>

definition lost_row :: jsobj where
  "lost_row =
     emptyObj(''brand'' := JString (utf16 ''iPhone''), ''contact_name'' := JString (utf16 ''Ana''))"

definition far_found_row :: jsobj where
  "far_found_row =
     emptyObj(''finder_name'' := JString (utf16 ''Ben''),
              ''latitude'' := JNumber (Num 14.64),
              ''longitude'' := JNumber (Num 121.02))"

definition equator_record :: jsobj where
  "equator_record =
     emptyObj(''latitude'' := JNumber (Num 0), ''longitude'' := JNumber (Num 120.98))"

definition fifty_items :: "nat list" where
  "fifty_items = [0 ..< 50]"

text \<open>A store with no lost rows and one found row.\<close>

definition found_only_env :: search_env where
  "found_only_env =
     \<lparr> fmt = (\<lambda>x. []), dateValue = (\<lambda>v. NaN), filterErrors = [],
       scanLost = Inr [], scanFound = Inr [far_found_row] \<rparr>"

text \<open>A store whose scan of the found category fails after the lost category succeeded.\<close>

definition failing_found_env :: search_env where
  "failing_found_env =
     \<lparr> fmt = (\<lambda>x. []), dateValue = (\<lambda>v. NaN), filterErrors = [],
       scanLost = Inr [lost_row],
       scanFound = Inl (utf16 ''SQLITE_ERROR: no such table: found_phones'') \<rparr>"

section \<open>Properties of the similarity engine\<close>

lemma calculateSimilarity_one_empty:
  "calculateSimilarity [] s = 0" "calculateSimilarity s [] = 0"
  by (simp_all add: calculateSimilarity_def)

lemma calculateSimilarity_le_100: "calculateSimilarity a b \<le> 100"
proof (cases "a = [] \<or> b = []")
  case True
  then show ?thesis by (auto simp: calculateSimilarity_def)
next
  case False
  then have m: "0 < max (length a) (length b)" by (cases a) simp_all
  have r: "(M - D) / M * 100 \<le> 100" if "0 < M" "0 \<le> D" for M D :: real
    using that by (simp add: field_simps)
  have "(real (max (length a) (length b))
          - real (levenshteinDistance (toLowerCase a) (toLowerCase b)))
        / real (max (length a) (length b)) * 100 \<le> 100"
    by (rule r) (use m in simp_all)
  then show ?thesis
    using False m by (simp only: calculateSimilarity_def Let_def) simp
qed

text \<open>
  Claim C2. The claim: similarity of two empty strings is 100, and similarity is 0 when
  exactly one string is empty. In \<open>calculateSimilarity\<close> the guard \<open>!str1 || !str2\<close>
  returns 0 before the test \<open>maxLength === 0\<close> that would return 100, so two empty
  strings have similarity 0. (The second half of the claim holds: lemma
  \<open>calculateSimilarity_one_empty\<close>.)
\<close>

theorem similarity_of_two_empty_strings:
  "calculateSimilarity [] [] = 0"
  by (simp add: calculateSimilarity_def)

text \<open>
  The scores that \<open>multiFieldFuzzySearch\<close> attaches: the best similarity starts at 0
  and is replaced only by a greater one, so an attached score lies between 0 and 100.
\<close>

lemma set_insert_by: "set (insert_by cmp x xs) = insert x (set xs)"
  by (induction xs) auto

lemma set_sort_by: "set (sort_by cmp xs) = set xs"
  by (induction xs) (simp_all add: sort_by_def set_insert_by)

lemma best_field_step_range:
  assumes "0 \<le> fst best" "fst best \<le> 100"
  shows "0 \<le> fst (best_field_step f searchTerm result best field)
         \<and> fst (best_field_step f searchTerm result best field) \<le> 100"
  using assms calculateSimilarity_le_100 [of searchTerm "toString f (result field)"]
  by (auto simp: best_field_step_def Let_def)

lemma foldl_best_field_range:
  assumes "0 \<le> fst best" "fst best \<le> 100"
  shows "0 \<le> fst (foldl (best_field_step f searchTerm result) best names)
         \<and> fst (foldl (best_field_step f searchTerm result) best names) \<le> 100"
  using assms
proof (induction names arbitrary: best)
  case Nil
  then show ?case by simp
next
  case (Cons n ns)
  from best_field_step_range [OF Cons.prems, of f searchTerm result n]
  show ?case by (simp add: Cons.IH)
qed

lemma best_field_range:
  "0 \<le> fst (best_field f searchTerm names result)
   \<and> fst (best_field f searchTerm names result) \<le> 100"
  unfolding best_field_def by (rule foldl_best_field_range) simp_all

lemma multiFieldFuzzySearch_scores_in_range:
  assumes "searchTerm \<noteq> []" "results \<noteq> []"
    and "r \<in> set (multiFieldFuzzySearch f results searchTerm names threshold)"
  shows "\<exists>s. r ''_similarity'' = JNumber (Num s) \<and> 0 \<le> s \<and> s \<le> 100"
proof -
  from assms obtain result where
    "r \<in> set (score_result f searchTerm names threshold result)"
    by (auto simp: multiFieldFuzzySearch_def set_sort_by)
  then have "r ''_similarity'' = JNumber (Num (fst (best_field f searchTerm names result)))"
    by (cases "best_field f searchTerm names result")
       (auto simp: score_result_def Let_def split: if_splits)
  then show ?thesis
    using best_field_range [of f searchTerm names result] by blast
qed

text \<open>
  Claim C8. The claim: for every pair of strings the similarity lies between 0 and 100.
  The upper bound holds (lemma \<open>calculateSimilarity_le_100\<close>). The lower bound fails
  when lower-casing lengthens a string: the longer length is taken before the strings
  are lower-cased and the distance after. For the one-character string U+0130 and the
  string \<open>a\<close> the longer length is 1, the lower-cased strings are at distance 2, and the
  similarity is -100. The scores attached to ranked results stay between 0 and 100
  (lemma \<open>multiFieldFuzzySearch_scores_in_range\<close>).
\<close>

theorem similarity_below_zero:
  "calculateSimilarity [304] (utf16 ''a'') = - 100"
  by (simp add: calculateSimilarity_def levenshteinDistance_def toLowerCase_def lower_unit_def
        utf16_def next_row_def)

lemma str_includes_iff_sublist: "str_includes a b \<longleftrightarrow> sublist b a"
  by (induction a) (simp_all add: sublist_Cons_right)

lemma normalize_international: 
  "normalizePhoneNumber (Some (utf16 ''+1 555 123 4567'')) = utf16 ''15551234567''"
  by (simp add: normalizePhoneNumber_def utf16_def is_digit_def)

lemma normalize_local:
  "normalizePhoneNumber (Some (utf16 ''5551234567'')) = utf16 ''5551234567''"
  by (simp add: normalizePhoneNumber_def utf16_def is_digit_def)

text \<open>
  Claim C9. When the digits of one phone number are a suffix of the digits of the other
  (so the first is the shorter, or they are equal) and the shorter has at least 7 digits,
  \<open>isPhoneSimilar\<close> returns true for every threshold, in either order of the arguments.
\<close>

theorem isPhoneSimilar_suffix_rule:
  assumes "suffix (normalizePhoneNumber (Some phone1)) (normalizePhoneNumber (Some phone2))"
    and "7 \<le> length (normalizePhoneNumber (Some phone1))"
  shows "isPhoneSimilar (Some phone1) (Some phone2) threshold
         \<and> isPhoneSimilar (Some phone2) (Some phone1) threshold"
proof -
  let ?n1 = "normalizePhoneNumber (Some phone1)"
  let ?n2 = "normalizePhoneNumber (Some phone2)"
  have inc: "str_includes ?n2 ?n1"
    using assms(1) by (simp add: str_includes_iff_sublist)
  have "length ?n1 \<le> length ?n2"
    using assms(1) by (rule suffix_length_le)
  then have len: "7 \<le> min (length ?n1) (length ?n2)" "7 \<le> min (length ?n2) (length ?n1)"
    using assms(2) by simp_all
  show ?thesis
    using inc len by (simp add: isPhoneSimilar_def Let_def)
qed

text \<open>
  The instance of the claim: \<open>+1 555 123 4567\<close> against \<open>5551234567\<close> with threshold 85.
\<close>

theorem isPhoneSimilar_suffix_rule_witness:
  "suffix (normalizePhoneNumber (Some (utf16 ''5551234567'')))
          (normalizePhoneNumber (Some (utf16 ''+1 555 123 4567'')))
   \<and> 7 \<le> length (normalizePhoneNumber (Some (utf16 ''5551234567'')))
   \<and> isPhoneSimilar (Some (utf16 ''+1 555 123 4567'')) (Some (utf16 ''5551234567'')) (Num 85)"
proof -
  have s: "suffix (normalizePhoneNumber (Some (utf16 ''5551234567'')))
                  (normalizePhoneNumber (Some (utf16 ''+1 555 123 4567'')))"
    by (simp add: normalize_international normalize_local) (simp add: utf16_def suffix_def)
  have l: "7 \<le> length (normalizePhoneNumber (Some (utf16 ''5551234567'')))"
    by (simp add: normalize_local) (simp add: utf16_def)
  from isPhoneSimilar_suffix_rule [OF s l, of "Num 85"] s l
  show ?thesis by simp
qed

section \<open>Properties of the geospatial engine\<close>

lemma calculateDistance_zero:
  "lat1 = Num 0 \<or> lon1 = Num 0 \<or> lat2 = Num 0 \<or> lon2 = Num 0
   \<Longrightarrow> calculateDistance lat1 lon1 lat2 lon2 = PosInf"
  by (auto simp: calculateDistance_def)

lemma extractCoordinates_zero:
  assumes "first_parsed record coordinateFields = None"
    and "record ''latitude'' = JNumber (Num 0) \<or> record ''longitude'' = JNumber (Num 0)"
  shows "extractCoordinates record = None"
  using assms by (auto simp: extractCoordinates_def)

text \<open>
  Claim C10. A coordinate that is the number 0 is treated as missing.
  \<open>calculateDistance\<close> returns Infinity when any of its four arguments is 0. For a
  record whose latitude or longitude is the number 0, \<open>extractCoordinates\<close> returns
  \<open>null\<close> and \<open>filterByProximity\<close> gives the result it gives without the record. The
  record is one with no combined coordinate property that parses to a location
  (\<open>coordinates\<close>, \<open>location_coordinates\<close>, \<open>lat_lon\<close>, \<open>position\<close>), as the rows of the
  store are: such a property is tried first and would supply the coordinates.
\<close>

theorem zero_coordinate_counts_as_missing:
  "(lat1 = Num 0 \<or> lon1 = Num 0 \<or> lat2 = Num 0 \<or> lon2 = Num 0
      \<longrightarrow> calculateDistance lat1 lon1 lat2 lon2 = PosInf)
   \<and> (first_parsed record coordinateFields = None
        \<and> (record ''latitude'' = JNumber (Num 0) \<or> record ''longitude'' = JNumber (Num 0))
      \<longrightarrow> extractCoordinates record = None
          \<and> filterByProximity (before @ record # after) centerLat centerLon radiusKm
              = filterByProximity (before @ after) centerLat centerLon radiusKm)"
proof (intro conjI impI)
  assume "lat1 = Num 0 \<or> lon1 = Num 0 \<or> lat2 = Num 0 \<or> lon2 = Num 0"
  then show "calculateDistance lat1 lon1 lat2 lon2 = PosInf"
    by (rule calculateDistance_zero)
next
  assume h: "first_parsed record coordinateFields = None
        \<and> (record ''latitude'' = JNumber (Num 0) \<or> record ''longitude'' = JNumber (Num 0))"
  then show e: "extractCoordinates record = None"
    by (intro extractCoordinates_zero) simp_all
  then have "proximity_entry centerLat centerLon radiusKm record = []"
    by (simp add: proximity_entry_def)
  then show "filterByProximity (before @ record # after) centerLat centerLon radiusKm
              = filterByProximity (before @ after) centerLat centerLon radiusKm"
    by (simp add: filterByProximity_def)
qed

theorem zero_coordinate_counts_as_missing_witness:
  "first_parsed equator_record coordinateFields = None
   \<and> equator_record ''latitude'' = JNumber (Num 0)
   \<and> calculateDistance (Num 0.5) (Num 120.98) (Num 0) (Num 120.98) = PosInf
   \<and> extractCoordinates equator_record = None
   \<and> filterByProximity [equator_record] (Num 0.5) (Num 120.98) (Num 100) = []"
proof -
  have a: "first_parsed equator_record coordinateFields = None"
    by (simp add: equator_record_def coordinateFields_def emptyObj_def)
  have b: "equator_record ''latitude'' = JNumber (Num 0)"
    by (simp add: equator_record_def)
  have e: "filterByProximity [] (Num 0.5) (Num 120.98) (Num 100) = []"
    by (simp add: filterByProximity_def sort_by_def)
  from zero_coordinate_counts_as_missing
         [of "Num 0.5" "Num 120.98" "Num 0" "Num 120.98" equator_record "[]" "[]"
             "Num 0.5" "Num 120.98" "Num 100"]
  show ?thesis using a b e by simp
qed

subsection \<open>The distance along a meridian\<close>

text \<open>
  Two polynomial bounds on the arc tangent, from the sign of a derivative, and with them
  and Machin's formula an upper bound on \<open>\<pi>\<close>.
\<close>

lemma one_plus_square_nonzero: "1 + t\<^sup>2 \<noteq> (0::real)"
proof -
  have "0 \<le> t\<^sup>2" by simp
  then have "0 < 1 + t\<^sup>2" by linarith
  then show ?thesis by simp
qed

lemma arctan_upper_poly:
  fixes x :: real
  assumes "0 \<le> x"
  shows "arctan x \<le> x - x ^ 3 / 3 + x ^ 5 / 5"
proof -
  let ?f = "\<lambda>t::real. t - t ^ 3 / 3 + t ^ 5 / 5 - arctan t"
  have "?f 0 \<le> ?f x"
  proof (rule DERIV_nonneg_imp_nondecreasing [OF assms])
    fix t :: real
    assume "0 \<le> t" "t \<le> x"
    have d: "(?f has_real_derivative (1 - t ^ 2 + t ^ 4 - inverse (1 + t\<^sup>2))) (at t)"
      by (auto intro!: derivative_eq_intros simp: field_simps)
    have "1 - t ^ 2 + t ^ 4 - inverse (1 + t\<^sup>2) = t ^ 6 / (1 + t\<^sup>2)"
    proof -
      have "(1 - t ^ 2 + t ^ 4) * (1 + t\<^sup>2) - 1 = t ^ 6"
        by (simp add: algebra_simps power2_eq_square power4_eq_xxxx power_numeral_reduce)
      then show ?thesis
        using one_plus_square_nonzero [of t] by (simp add: field_simps)
    qed
    moreover have "0 \<le> t ^ 6 / (1 + t\<^sup>2)"
      by (intro divide_nonneg_nonneg) (auto intro: add_nonneg_nonneg)
    ultimately show "\<exists>y. (?f has_real_derivative y) (at t) \<and> 0 \<le> y"
      using d by auto
  qed
  then show ?thesis by simp
qed

lemma arctan_lower_poly:
  fixes x :: real
  assumes "0 \<le> x"
  shows "x - x ^ 3 / 3 \<le> arctan x"
proof -
  let ?f = "\<lambda>t::real. arctan t - t + t ^ 3 / 3"
  have "?f 0 \<le> ?f x"
  proof (rule DERIV_nonneg_imp_nondecreasing [OF assms])
    fix t :: real
    assume "0 \<le> t" "t \<le> x"
    have d: "(?f has_real_derivative (inverse (1 + t\<^sup>2) - 1 + t ^ 2)) (at t)"
      by (auto intro!: derivative_eq_intros simp: field_simps)
    have "inverse (1 + t\<^sup>2) - 1 + t ^ 2 = t ^ 4 / (1 + t\<^sup>2)"
    proof -
      have "1 + (t ^ 2 - 1) * (1 + t\<^sup>2) = t ^ 4"
        by (simp add: algebra_simps power2_eq_square power4_eq_xxxx)
      then show ?thesis
        using one_plus_square_nonzero [of t] by (simp add: field_simps)
    qed
    moreover have "0 \<le> t ^ 4 / (1 + t\<^sup>2)"
      by (intro divide_nonneg_nonneg) (auto intro: add_nonneg_nonneg)
    ultimately show "\<exists>y. (?f has_real_derivative y) (at t) \<and> 0 \<le> y"
      using d by auto
  qed
  then show ?thesis by simp
qed

lemma pi_upper: "pi < 3.1417"
proof -
  have a: "arctan (1 / 5) \<le> (1/5) - (1/5) ^ 3 / 3 + (1/5) ^ 5 / 5"
    by (rule arctan_upper_poly) simp
  have b: "(1/239) - (1/239) ^ 3 / 3 \<le> arctan (1 / 239)"
    by (rule arctan_lower_poly) simp
  have "pi = 16 * arctan (1 / 5) - 4 * arctan (1 / 239)"
    using machin by simp
  also have "\<dots> \<le> 16 * ((1/5) - (1/5) ^ 3 / 3 + (1/5) ^ 5 / 5) - 4 * ((1/239) - (1/239) ^ 3 / 3)"
    by (rule diff_mono) (use a b in simp_all)
  also have "\<dots> < 3.1417"
    by (simp add: power_numeral_reduce)
  finally show ?thesis .
qed

lemma sin_sq_le_one: "sin (x::real) * sin x \<le> 1"
proof -
  have "sin x * sin x + cos x * cos x = 1"
    using sin_cos_squared_add [of x] by (simp add: power2_eq_square)
  moreover have "0 \<le> cos x * cos x" by simp
  ultimately show ?thesis by linarith
qed

lemma atan2_sin_cos:
  fixes x :: real
  assumes "0 \<le> x" "x < pi / 2"
  shows "atan2_real \<bar>sin x\<bar> (sqrt (1 - sin x * sin x)) = x"
proof -
  have s: "0 \<le> sin x" using assms by (intro sin_ge_zero) (auto intro: order_trans)
  have c: "0 < cos x" using assms by (intro cos_gt_zero_pi) auto
  have "1 - sin x * sin x = cos x * cos x"
    using sin_cos_squared_add [of x] by (simp add: power2_eq_square algebra_simps)
  then have "sqrt (1 - sin x * sin x) = cos x" using c by simp
  moreover have "arctan (sin x / cos x) = x"
    using arctan_tan [of x] assms by (simp add: tan_def)
  ultimately show ?thesis using c s by (simp add: atan2_real_def)
qed

text \<open>
  Between two points of the same longitude, the second to the north of the first, the
  haversine distance is the difference of the latitudes in radians times the radius.
\<close>

lemma calculateDistance_same_meridian:
  fixes lat1 lat2 lon :: real
  assumes "lat1 \<noteq> 0" "lon \<noteq> 0" "lat2 \<noteq> 0" "lat1 \<le> lat2" "lat2 - lat1 < 180"
  shows "calculateDistance (Num lat1) (Num lon) (Num lat2) (Num lon)
           = Num (6371 * ((lat2 - lat1) * (pi / 180)))"
proof -
  let ?x = "(lat2 - lat1) * pi / 360"
  have x0: "0 \<le> ?x" using assms by simp
  have "(lat2 - lat1) * pi < 180 * pi"
    using assms by (intro mult_strict_right_mono) simp_all
  then have x1: "?x < pi / 2" by simp
  have "atan2_real \<bar>sin ?x\<bar> (sqrt (1 - sin ?x * sin ?x)) = ?x"
    by (rule atan2_sin_cos [OF x0 x1])
  moreover have "\<not> 1 < sin ?x * sin ?x"
    using sin_sq_le_one [of ?x] by simp
  ultimately have "calculateDistance (Num lat1) (Num lon) (Num lat2) (Num lon)
                    = Num (6371 * (2 * ?x))"
    using assms by (simp add: calculateDistance_def toRadians_def js_sub_def Let_def mult.commute)
  then show ?thesis by simp
qed

text \<open>
  Claim C4. The claim: every point whose haversine distance from the centre is strictly
  less than the radius lies inside the box of \<open>createBoundingBox\<close>. The box takes
  111.32 km for a degree of latitude, while \<open>calculateDistance\<close>, with the radius
  6371 km, measures a degree of latitude as about 111.19 km; the box is therefore lower
  than the circle. For the centre (14.5, 121) and the radius 100 km, the point
  (15.399, 121) is at a distance below 100 km and its latitude is above \<open>maxLat\<close>.
\<close>

theorem bounding_box_excludes_point_inside_circle:
  "js_lt (calculateDistance (Num 14.5) (Num 121) (Num 15.399) (Num 121)) (Num 100)
   \<and> \<not> in_box (createBoundingBox (Num 14.5) (Num 121) (Num 100)) (Num 15.399) (Num 121)"
proof
  have d: "calculateDistance (Num 14.5) (Num 121) (Num 15.399) (Num 121)
             = Num (6371 * ((15.399 - 14.5) * (pi / 180)))"
    by (rule calculateDistance_same_meridian) simp_all
  have "6371 * ((15.399 - 14.5) * (pi / 180)) < (100::real)"
    using pi_upper by simp
  then show "js_lt (calculateDistance (Num 14.5) (Num 121) (Num 15.399) (Num 121)) (Num 100)"
    by (simp only: d js_lt.simps)
next
  have "maxLat (createBoundingBox (Num 14.5) (Num 121) (Num 100)) = Num (14.5 + 100 * (1 / 111.32))"
    by (simp add: createBoundingBox_def toRadians_def Let_def)
  moreover have "\<not> (15.399 \<le> 14.5 + 100 * (1 / 111.32 :: real))"
    by simp
  ultimately show "\<not> in_box (createBoundingBox (Num 14.5) (Num 121) (Num 100)) (Num 15.399) (Num 121)"
    by (simp add: in_box_def)
qed

text \<open>
  At this input no coordinate is 0, so the guard of \<open>calculateDistance\<close> is passed
  and the distance is the finite number computed by the formula.
\<close>

theorem bounding_box_excludes_point_inside_circle_witness:
  "num_truthy (Num 14.5) \<and> num_truthy (Num 121) \<and> num_truthy (Num 15.399)
   \<and> calculateDistance (Num 14.5) (Num 121) (Num 15.399) (Num 121)
       = Num (6371 * ((15.399 - 14.5) * (pi / 180)))
   \<and> js_lt (calculateDistance (Num 14.5) (Num 121) (Num 15.399) (Num 121)) (Num 100)
   \<and> maxLat (createBoundingBox (Num 14.5) (Num 121) (Num 100)) = Num (14.5 + 100 / 111.32)"
proof -
  have d: "calculateDistance (Num 14.5) (Num 121) (Num 15.399) (Num 121)
             = Num (6371 * ((15.399 - 14.5) * (pi / 180)))"
    by (rule calculateDistance_same_meridian) simp_all
  have m: "maxLat (createBoundingBox (Num 14.5) (Num 121) (Num 100)) = Num (14.5 + 100 / 111.32)"
    by (simp add: createBoundingBox_def toRadians_def Let_def)
  from bounding_box_excludes_point_inside_circle d m show ?thesis by simp
qed

subsection \<open>A lower bound on a distance\<close>

text \<open>
  Polynomial bounds on the arc tangent, the sine and the cosine and a lower bound on
  \<open>\<pi>\<close>, and with them a lower bound on the haversine distance between the points
  (14.6, 120.98) and (14.64, 121.02), which is about 6.2 km.
\<close>

lemma arctan_le_self_nonneg:
  fixes x :: real
  assumes "0 \<le> x"
  shows "arctan x \<le> x"
proof -
  let ?f = "\<lambda>t::real. t - arctan t"
  have "?f 0 \<le> ?f x"
  proof (rule DERIV_nonneg_imp_nondecreasing [OF assms])
    fix t :: real
    assume "0 \<le> t" "t \<le> x"
    have d: "(?f has_real_derivative (1 - inverse (1 + t\<^sup>2))) (at t)"
      by (auto intro!: derivative_eq_intros simp: field_simps)
    have "1 - inverse (1 + t\<^sup>2) = t\<^sup>2 / (1 + t\<^sup>2)"
      using one_plus_square_nonzero [of t] by (simp add: field_simps)
    moreover have "0 \<le> t\<^sup>2 / (1 + t\<^sup>2)"
      by (intro divide_nonneg_nonneg) (auto intro: add_nonneg_nonneg)
    ultimately show "\<exists>y. (?f has_real_derivative y) (at t) \<and> 0 \<le> y"
      using d by auto
  qed
  then show ?thesis by simp
qed

lemma pi_lower: "3.14 < pi"
proof -
  have a: "(1/5) - (1/5) ^ 3 / 3 \<le> arctan (1 / 5)"
    by (rule arctan_lower_poly) simp
  have b: "arctan (1 / 239) \<le> 1 / 239"
    by (rule arctan_le_self_nonneg) simp
  have "(3.14::real) < 16 * ((1/5) - (1/5) ^ 3 / 3) - 4 * (1 / 239)"
    by (simp add: power_numeral_reduce)
  also have "\<dots> \<le> 16 * arctan (1 / 5) - 4 * arctan (1 / 239)"
    by (rule diff_mono) (use a b in simp_all)
  also have "\<dots> = pi"
    using machin by simp
  finally show ?thesis .
qed

lemma cos_lower_poly:
  fixes x :: real
  assumes "0 \<le> x"
  shows "1 - x\<^sup>2 / 2 \<le> cos x"
proof -
  let ?f = "\<lambda>t::real. cos t - 1 + t\<^sup>2 / 2"
  have "?f 0 \<le> ?f x"
  proof (rule DERIV_nonneg_imp_nondecreasing [OF assms])
    fix t :: real
    assume t: "0 \<le> t" "t \<le> x"
    have d: "(?f has_real_derivative (- sin t + t)) (at t)"
      by (auto intro!: derivative_eq_intros simp: field_simps)
    moreover have "0 \<le> - sin t + t"
      using sin_x_le_x [OF t(1)] by simp
    ultimately show "\<exists>y. (?f has_real_derivative y) (at t) \<and> 0 \<le> y"
      by auto
  qed
  then show ?thesis by simp
qed

lemma sin_lower_poly:
  fixes x :: real
  assumes "0 \<le> x"
  shows "x - x ^ 3 / 6 \<le> sin x"
proof -
  let ?f = "\<lambda>t::real. sin t - t + t ^ 3 / 6"
  have "?f 0 \<le> ?f x"
  proof (rule DERIV_nonneg_imp_nondecreasing [OF assms])
    fix t :: real
    assume t: "0 \<le> t" "t \<le> x"
    have d: "(?f has_real_derivative (cos t - 1 + t\<^sup>2 / 2)) (at t)"
      by (auto intro!: derivative_eq_intros simp: field_simps)
    moreover have "0 \<le> cos t - 1 + t\<^sup>2 / 2"
      using cos_lower_poly [OF t(1)] by simp
    ultimately show "\<exists>y. (?f has_real_derivative y) (at t) \<and> 0 \<le> y"
      by auto
  qed
  then show ?thesis by simp
qed

lemma atan2_lower:
  fixes a L :: real
  assumes "0 \<le> L" "L\<^sup>2 \<le> a" "a < 1"
  shows "L - L ^ 3 / 3 \<le> atan2_real (sqrt a) (sqrt (1 - a))"
proof -
  have a0: "0 \<le> a" using assms(2) zero_le_power2 [of L] by linarith
  have l: "L \<le> sqrt a" using assms by (intro real_le_rsqrt)
  have d: "0 < sqrt (1 - a)" using assms by simp
  have "sqrt (1 - a) \<le> 1" using a0 by simp
  then have "sqrt a * sqrt (1 - a) \<le> sqrt a * 1"
    using a0 by (intro mult_left_mono) simp_all
  then have "sqrt a \<le> sqrt a / sqrt (1 - a)"
    using d by (simp add: field_simps)
  then have "L \<le> sqrt a / sqrt (1 - a)" using l by linarith
  then have "arctan L \<le> arctan (sqrt a / sqrt (1 - a))"
    by (simp add: arctan_le_iff)
  moreover have "L - L ^ 3 / 3 \<le> arctan L"
    by (rule arctan_lower_poly [OF assms(1)])
  ultimately show ?thesis using d by (simp add: atan2_real_def)
qed

text \<open>Numeric bounds on the sines and cosines of the example.\<close>

lemma sin_example_bounds: "0.000348 \<le> sin (pi / 9000)" "sin (pi / 9000) \<le> 0.00035"
proof -
  let ?x = "pi / 9000"
  have x: "3.14 / 9000 \<le> ?x" "?x \<le> 3.1417 / 9000" "0 \<le> ?x"
    using pi_lower pi_upper by simp_all
  have "?x ^ 3 \<le> (3.1417 / 9000) ^ 3"
    using x by (intro power_mono) simp_all
  then have "3.14 / 9000 - (3.1417 / 9000) ^ 3 / 6 \<le> ?x - ?x ^ 3 / 6"
    using x(1) by linarith
  moreover have "(0.000348::real) \<le> 3.14 / 9000 - (3.1417 / 9000) ^ 3 / 6"
    by (simp add: power_numeral_reduce)
  ultimately show "0.000348 \<le> sin ?x"
    using sin_lower_poly [OF x(3)] by linarith
  have "sin ?x \<le> ?x" by (rule sin_x_le_x [OF x(3)])
  then show "sin ?x \<le> 0.00035" using x(2) by simp
qed

lemma cos_lower_example:
  fixes k :: real
  assumes "0 \<le> k" "k \<le> 0.09"
  shows "0.96 \<le> cos (k * pi)"
proof -
  have x: "0 \<le> k * pi" using assms by simp
  have "k * pi \<le> 0.09 * 3.1417"
    using assms pi_upper by (intro mult_mono) simp_all
  then have "(k * pi)\<^sup>2 \<le> (0.09 * 3.1417)\<^sup>2"
    using x by (intro power_mono) simp_all
  also have "((0.09::real) * 3.1417)\<^sup>2 \<le> 0.08"
    by (simp add: power2_eq_square)
  finally have sq: "(k * pi)\<^sup>2 \<le> 0.08" .
  have "0.96 \<le> 1 - (k * pi)\<^sup>2 / 2" using sq by simp
  then show ?thesis using cos_lower_poly [OF x] by (rule order_trans)
qed

lemma haversine_term_bounds:
  fixes s c1 c2 :: real
  assumes "0.000348 \<le> s" "s \<le> 0.00035" "0.96 \<le> c1" "c1 \<le> 1" "0.96 \<le> c2" "c2 \<le> 1"
  shows "0.00048\<^sup>2 \<le> s * s + c1 * c2 * s * s" "s * s + c1 * c2 * s * s < 1"
proof -
  have s0: "0 \<le> s" and c10: "0 \<le> c1" and c20: "0 \<le> c2"
    using assms by simp_all
  have ss1: "0.000348 * 0.000348 \<le> s * s"
    by (rule mult_mono) (use assms s0 in simp_all)
  have ss2: "s * s \<le> 0.00035 * 0.00035"
    by (rule mult_mono) (use assms s0 in simp_all)
  have cc1: "0.96 * 0.96 \<le> c1 * c2"
    by (rule mult_mono) (use assms c10 in simp_all)
  have cc2: "c1 * c2 \<le> 1 * 1"
    by (rule mult_mono) (use assms c20 in simp_all)
  have p1: "(0.96 * 0.96) * (0.000348 * 0.000348) \<le> (c1 * c2) * (s * s)"
    by (rule mult_mono [OF cc1 ss1]) (use c10 c20 in simp_all)
  have p2: "(c1 * c2) * (s * s) \<le> (1 * 1) * (0.00035 * 0.00035)"
    by (rule mult_mono [OF cc2 ss2]) (use s0 in simp_all)
  have "(0.00048::real)\<^sup>2 \<le> 0.000348 * 0.000348 + (0.96 * 0.96) * (0.000348 * 0.000348)"
    by (simp add: power2_eq_square)
  also have "\<dots> \<le> s * s + (c1 * c2) * (s * s)"
    by (rule add_mono [OF ss1 p1])
  finally show "0.00048\<^sup>2 \<le> s * s + c1 * c2 * s * s"
    by (simp add: mult.assoc)
  have "s * s + (c1 * c2) * (s * s) \<le> 0.00035 * 0.00035 + (1 * 1) * (0.00035 * 0.00035)"
    by (rule add_mono [OF ss2 p2])
  also have "\<dots> < (1::real)" by simp
  finally show "s * s + c1 * c2 * s * s < 1"
    by (simp add: mult.assoc)
qed



lemma distance_example:
  "\<exists>d. calculateDistance (Num 14.6) (Num 120.98) (Num 14.64) (Num 121.02) = Num d \<and> 5 < d"
proof -
  define s where "s = sin (pi / 9000)"
  define c1 where "c1 = cos (73 * pi / 900)"
  define c2 where "c2 = cos (61 * pi / 750)"
  define a where "a = s * s + c1 * c2 * s * s"
  have c1: "0.96 \<le> c1" using cos_lower_example [of "73 / 900"] by (simp add: c1_def)
  have c2: "0.96 \<le> c2" using cos_lower_example [of "61 / 750"] by (simp add: c2_def)
  have sb: "0.000348 \<le> s" "s \<le> 0.00035"
    using sin_example_bounds by (simp_all add: s_def)
  have c1' : "c1 \<le> 1" and c2': "c2 \<le> 1" by (simp_all add: c1_def c2_def)
  have b: "0.00048\<^sup>2 \<le> a" "a < 1"
    using haversine_term_bounds [OF sb c1 c1' c2 c2'] by (simp_all add: a_def)
  have a0: "\<not> a < 0" using b(1) zero_le_power2 [of "0.00048::real"] by linarith
  have a1: "\<not> 1 - a < 0" using b(2) by linarith
  have lo: "0.00048 - 0.00048 ^ 3 / 3 \<le> atan2_real (sqrt a) (sqrt (1 - a))"
    by (rule atan2_lower [OF _ b]) simp
  have num: "(5::real) < 12742 * (0.00048 - 0.00048 ^ 3 / 3)"
    by (simp add: power_numeral_reduce)
  have "12742 * (0.00048 - 0.00048 ^ 3 / 3) \<le> 12742 * atan2_real (sqrt a) (sqrt (1 - a))"
    using lo by (rule mult_left_mono) simp
  with num have d: "5 < 12742 * atan2_real (sqrt a) (sqrt (1 - a))"
    by (rule less_le_trans)
  have e: "1 + (- (s * s) - c1 * c2 * s * s) = 1 - a"
    by (simp add: a_def)
  have "calculateDistance (Num 14.6) (Num 120.98) (Num 14.64) (Num 121.02)
          = (if s * s + c1 * c2 * s * s < 0 then NaN
             else if 1 + (- (s * s) - c1 * c2 * s * s) < 0 then NaN
             else Num (12742 * atan2_real (sqrt (s * s + c1 * c2 * s * s))
                                  (sqrt (1 + (- (s * s) - c1 * c2 * s * s)))))"
    unfolding s_def c1_def c2_def
    by (simp add: calculateDistance_def toRadians_def js_sub_def Let_def)
  then have f: "calculateDistance (Num 14.6) (Num 120.98) (Num 14.64) (Num 121.02)
             = (if a < 0 then NaN else if 1 - a < 0 then NaN
                else Num (12742 * atan2_real (sqrt a) (sqrt (1 - a))))"
    by (simp only: e a_def [symmetric])
  show ?thesis using a0 a1 d by (simp only: f if_False) blast
qed

section \<open>Properties of the query optimiser\<close>

lemma key_query_only:
  "generateCacheKey f (optimizeSearchParams query_only)
     = utf16 ''search:iphone:all:no-country:no-region:no-city:false:70:false:no-lat:no-lon:10:1:50''"
  by (simp add: generateCacheKey_def optimizeSearchParams_def query_only_def query_obj_def
        key_part_def utf16_def toLowerCase_def lower_unit_def trim_def is_space_def Let_def)

lemma key_query_fuzzy_false:
  "generateCacheKey f (optimizeSearchParams query_fuzzy_false)
     = utf16 ''search:iphone:all:no-country:no-region:no-city:false:70:false:no-lat:no-lon:10:1:50''"
  by (simp add: generateCacheKey_def optimizeSearchParams_def query_fuzzy_false_def query_obj_def
        key_part_def utf16_def toLowerCase_def lower_unit_def trim_def is_space_def Let_def)

lemma key_query_fuzzy_true:
  "generateCacheKey f (optimizeSearchParams query_fuzzy_true)
     = utf16 ''search:iphone:all:no-country:no-region:no-city:true:70:false:no-lat:no-lon:10:1:50''"
  by (simp add: generateCacheKey_def optimizeSearchParams_def query_fuzzy_true_def query_obj_def
        key_part_def utf16_def toLowerCase_def lower_unit_def trim_def is_space_def Let_def)

text \<open>
  Claim C3. The claim: two requests that differ only in leaving a parameter out or
  giving its default value have the same cache key. The handler takes \<open>fuzzy\<close> to be
  \<open>true\<close> when it is absent, while \<open>generateCacheKey\<close> writes \<open>false\<close> for an absent
  \<open>fuzzy\<close>. The request with only \<open>query=iphone\<close> and the request that adds
  \<open>fuzzy=true\<close> are both fuzzy searches, and their keys differ, whatever the formatting
  of numbers \<open>f\<close>. The request that adds \<open>fuzzy=false\<close> instead is not a fuzzy search
  and has the key of the first.
\<close>

theorem cache_key_differs_for_default_fuzzy:
  "useFuzzy query_only \<and> useFuzzy query_fuzzy_true
   \<and> generateCacheKey f (optimizeSearchParams query_only)
       = utf16 ''search:iphone:all:no-country:no-region:no-city:false:70:false:no-lat:no-lon:10:1:50''
   \<and> generateCacheKey f (optimizeSearchParams query_fuzzy_true)
       = utf16 ''search:iphone:all:no-country:no-region:no-city:true:70:false:no-lat:no-lon:10:1:50''
   \<and> generateCacheKey f (optimizeSearchParams query_only)
       \<noteq> generateCacheKey f (optimizeSearchParams query_fuzzy_true)
   \<and> \<not> useFuzzy query_fuzzy_false
   \<and> generateCacheKey f (optimizeSearchParams query_fuzzy_false)
       = generateCacheKey f (optimizeSearchParams query_only)"
proof -
  have u: "useFuzzy query_only" "useFuzzy query_fuzzy_true" "\<not> useFuzzy query_fuzzy_false"
    by (simp_all add: useFuzzy_def param_or_def query_only_def query_fuzzy_true_def
          query_fuzzy_false_def utf16_def)
  have "utf16 ''search:iphone:all:no-country:no-region:no-city:false:70:false:no-lat:no-lon:10:1:50''
        \<noteq> utf16 ''search:iphone:all:no-country:no-region:no-city:true:70:false:no-lat:no-lon:10:1:50''"
    by (simp add: utf16_def)
  then show ?thesis
    using u by (simp only: key_query_only key_query_fuzzy_true key_query_fuzzy_false) simp
qed

text \<open>
  Claim C5, as amended. For a list of 50 results and a page size of 20 there are three
  pages. Page 2 has 20 items, \<open>current_page\<close> 2, a previous page and a next page
  (\<open>has_next\<close> is true, where the claim says false); page 3 has 10 items and no next page.
\<close>

theorem paginate_fifty_items:
  assumes "length results = 50"
  shows "length (data (paginateResults results (Num 2) (Num 20))) = 20
         \<and> current_page (pagination (paginateResults results (Num 2) (Num 20))) = Num 2
         \<and> has_previous (pagination (paginateResults results (Num 2) (Num 20)))
         \<and> has_next (pagination (paginateResults results (Num 2) (Num 20)))
         \<and> length (data (paginateResults results (Num 3) (Num 20))) = 10
         \<and> \<not> has_next (pagination (paginateResults results (Num 3) (Num 20)))"
proof -
  have c: "\<lceil>5 / 2 :: real\<rceil> = 3" by (simp add: ceiling_eq_iff)
  have p2: "paginateResults results (Num 2) (Num 20) =
        \<lparr> data = slice results (Num 20) (Num 40),
          pagination = \<lparr> current_page = Num 2, total_pages = Num 3, total_items = 50,
                         items_per_page = Num 20, has_next = True, has_previous = True,
                         next_page = Some (Num 3), previous_page = Some (Num 1) \<rparr> \<rparr>"
    using assms c
    by (simp add: paginateResults_def Let_def Math_max_def Math_min_def js_sub_def js_gt_def)
  have p3: "paginateResults results (Num 3) (Num 20) =
        \<lparr> data = slice results (Num 40) (Num 60),
          pagination = \<lparr> current_page = Num 3, total_pages = Num 3, total_items = 50,
                         items_per_page = Num 20, has_next = False, has_previous = True,
                         next_page = None, previous_page = Some (Num 2) \<rparr> \<rparr>"
    using assms c
    by (simp add: paginateResults_def Let_def Math_max_def Math_min_def js_sub_def js_gt_def)
  have l2: "length (slice results (Num 20) (Num 40)) = 20"
    using assms by (simp add: slice_def slice_index_def Let_def)
  have l3: "length (slice results (Num 40) (Num 60)) = 10"
    using assms by (simp add: slice_def slice_index_def Let_def)
  show ?thesis
    by (simp add: p2 p3 l2 l3)
qed

theorem paginate_fifty_items_witness:
  "length fifty_items = 50
   \<and> length (data (paginateResults fifty_items (Num 2) (Num 20))) = 20
   \<and> has_next (pagination (paginateResults fifty_items (Num 2) (Num 20)))
   \<and> length (data (paginateResults fifty_items (Num 3) (Num 20))) = 10
   \<and> \<not> has_next (pagination (paginateResults fifty_items (Num 3) (Num 20)))"
proof -
  have l: "length fifty_items = 50" by (simp add: fifty_items_def)
  from paginate_fifty_items [OF l] l show ?thesis by simp
qed

text \<open>Claim C5 as stated fails: page 2 of 50 items in pages of 20 has a next page.\<close>

theorem paginate_page_two_has_next:
  "\<not> (length (data (paginateResults fifty_items (Num 2) (Num 20))) = 20
       \<and> current_page (pagination (paginateResults fifty_items (Num 2) (Num 20))) = Num 2
       \<and> has_previous (pagination (paginateResults fifty_items (Num 2) (Num 20)))
       \<and> \<not> has_next (pagination (paginateResults fifty_items (Num 2) (Num 20))))"
proof -
  have c: "\<lceil>5 / 2 :: real\<rceil> = 3" by (simp add: ceiling_eq_iff)
  have "has_next (pagination (paginateResults fifty_items (Num 2) (Num 20)))"
    using c by (simp add: paginateResults_def fifty_items_def Let_def Math_max_def Math_min_def)
  then show ?thesis by simp
qed

lemma valid_pair_iff: "valid_pair lat lon \<longleftrightarrow> \<not> out_of_range lat lon"
  by (cases lat; cases lon) (auto simp: valid_pair_def out_of_range_def isNaN_def js_gt_def)

lemma optimize_lat_lon:
  "optimizeSearchParams q ''lat'' =
     (if present q ''lat'' \<and> present q ''lon''
         \<and> out_of_range (parseFloat (param q ''lat'')) (parseFloat (param q ''lon''))
      then JUndefined else query_obj q ''lat'')"
  "optimizeSearchParams q ''lon'' =
     (if present q ''lat'' \<and> present q ''lon''
         \<and> out_of_range (parseFloat (param q ''lat'')) (parseFloat (param q ''lon''))
      then JUndefined else query_obj q ''lon'')"
  by (auto simp: optimizeSearchParams_def Let_def present_def param_def query_obj_def
           split: option.splits)

text \<open>
  Claim C6, as amended. \<open>optimizeSearchParams\<close> examines the coordinates only when both
  are supplied and non-empty. Then the pair is kept as it is when both parse to numbers
  with -90 <= lat <= 90 and -180 <= lon <= 180, and both are dropped otherwise. When
  one of the two is missing, the other is left as it is.
\<close>

theorem optimizeSearchParams_coordinates:
  "(present q ''lat'' \<and> present q ''lon'' \<longrightarrow>
      (if valid_pair (parseFloat (param q ''lat'')) (parseFloat (param q ''lon''))
       then optimizeSearchParams q ''lat'' = JString (param q ''lat'')
            \<and> optimizeSearchParams q ''lon'' = JString (param q ''lon'')
       else optimizeSearchParams q ''lat'' = JUndefined
            \<and> optimizeSearchParams q ''lon'' = JUndefined))
   \<and> (\<not> (present q ''lat'' \<and> present q ''lon'') \<longrightarrow>
        optimizeSearchParams q ''lat'' = query_obj q ''lat''
        \<and> optimizeSearchParams q ''lon'' = query_obj q ''lon'')"
  by (auto simp: optimize_lat_lon valid_pair_iff present_def param_def query_obj_def
           split: option.splits)

theorem optimizeSearchParams_coordinates_witness:
  "present manila_query ''lat'' \<and> present manila_query ''lon''
   \<and> valid_pair (parseFloat (param manila_query ''lat'')) (parseFloat (param manila_query ''lon''))
   \<and> optimizeSearchParams manila_query ''lat'' = JString (utf16 ''14.60'')
   \<and> optimizeSearchParams manila_query ''lon'' = JString (utf16 ''120.98'')
   \<and> \<not> (present latitude_only ''lat'' \<and> present latitude_only ''lon'')
   \<and> optimizeSearchParams latitude_only ''lat'' = JString (utf16 ''95'')"
proof -
  have p: "present manila_query ''lat''" "present manila_query ''lon''"
    by (simp_all add: present_def manila_query_def utf16_def)
  have la: "parseFloat (param manila_query ''lat'') = Num 14.6"
    by (simp add: param_def manila_query_def parseFloat_def utf16_def is_space_def is_digit_def
          digits_value_def exponent_part_def scale10_def Let_def)
  have lo: "parseFloat (param manila_query ''lon'') = Num 120.98"
    by (simp add: param_def manila_query_def parseFloat_def utf16_def is_space_def is_digit_def
          digits_value_def exponent_part_def scale10_def Let_def)
  have v: "valid_pair (parseFloat (param manila_query ''lat'')) (parseFloat (param manila_query ''lon''))"
    by (simp add: la lo valid_pair_def)
  have n: "\<not> (present latitude_only ''lat'' \<and> present latitude_only ''lon'')"
    by (simp add: present_def latitude_only_def)
  have q: "param manila_query ''lat'' = utf16 ''14.60''" "param manila_query ''lon'' = utf16 ''120.98''"
          "query_obj latitude_only ''lat'' = JString (utf16 ''95'')"
    by (simp_all add: param_def manila_query_def query_obj_def latitude_only_def)
  from optimizeSearchParams_coordinates [of manila_query]
       optimizeSearchParams_coordinates [of latitude_only] p v n q
  show ?thesis by simp
qed

text \<open>
  Claim C6 as stated fails: a latitude supplied without a longitude stays in the output,
  which then has a latitude and no longitude.
\<close>

theorem lone_latitude_is_retained:
  "\<not> (optimizeSearchParams latitude_only ''lat'' \<noteq> JUndefined
        \<longleftrightarrow> optimizeSearchParams latitude_only ''lon'' \<noteq> JUndefined)"
  by (simp add: optimizeSearchParams_def latitude_only_def query_obj_def Let_def utf16_def)

section \<open>Properties of the search request\<close>

text \<open>
  Claim C7. When the filters are valid, a search criterion is present and the cache has
  no entry for the request, a scan of the lost category that succeeds followed by a scan
  of the found category that fails gives a success response with the results of the lost
  category and an empty list for the found category; the cache is left as it was.
\<close>

theorem found_scan_failure_gives_lost_results:
  assumes "filterErrors env = []"
    and "\<not> criteria_missing q"
    and "useCache q \<longrightarrow> cache (generateCacheKey (fmt env) (optimizeSearchParams q)) = None"
    and "scanLost env = Inr rows"
    and "scanFound env = Inl err"
  shows "apiSearch env cache q
           = (JsonLostFound (lostResults env q rows) []
                (searchInfo q (length (lostResults env q rows))), cache)
         \<and> is_success (fst (apiSearch env cache q))"
  using assms by (simp add: apiSearch_def Let_def split: prod.splits)

theorem found_scan_failure_gives_lost_results_witness:
  "filterErrors failing_found_env = []
   \<and> \<not> criteria_missing query_only
   \<and> scanLost failing_found_env = Inr [lost_row]
   \<and> scanFound failing_found_env = Inl (utf16 ''SQLITE_ERROR: no such table: found_phones'')
   \<and> apiSearch failing_found_env Map.empty query_only
       = (JsonLostFound (lostResults failing_found_env query_only [lost_row]) []
            (searchInfo query_only (length (lostResults failing_found_env query_only [lost_row]))),
          Map.empty)
   \<and> is_success (fst (apiSearch failing_found_env Map.empty query_only))"
proof -
  have a: "filterErrors failing_found_env = []"
    by (simp add: failing_found_env_def)
  have b: "\<not> criteria_missing query_only"
    by (simp add: criteria_missing_def present_def query_only_def utf16_def)
  have c: "useCache query_only \<longrightarrow>
             Map.empty (generateCacheKey (fmt failing_found_env) (optimizeSearchParams query_only)) = None"
    by simp
  have d: "scanLost failing_found_env = Inr [lost_row]"
    by (simp add: failing_found_env_def)
  have e: "scanFound failing_found_env = Inl (utf16 ''SQLITE_ERROR: no such table: found_phones'')"
    by (simp add: failing_found_env_def)
  from found_scan_failure_gives_lost_results [OF a b c d e] a b d e
  show ?thesis by simp
qed

lemma nearby_query_values:
  "parseFloat (param nearby_query ''lat'') = Num 14.6"
  "parseFloat (param nearby_query ''lon'') = Num 120.98"
  "searchRadius nearby_query = Num 5"
  by (simp_all add: param_def param_or_def searchRadius_def num_or_def nearby_query_def
        parseFloat_def utf16_def is_space_def is_digit_def digits_value_def exponent_part_def
        scale10_def Let_def)

lemma far_found_row_coordinates:
  "extractCoordinates far_found_row = Some (Num 14.64, Num 121.02)"
  by (simp add: extractCoordinates_def far_found_row_def coordinateFields_def emptyObj_def
        isNaN_def js_ge_def)

lemma far_found_row_in_box:
  "in_box (createBoundingBox (Num 14.6) (Num 120.98) (Num 5)) (Num 14.64) (Num 121.02)"
proof -
  define c where "c = cos (73 * pi / 900)"
  define w where "w = 5 / (111.32 * c)"
  have c: "0.96 \<le> c" "c \<le> 1"
    using cos_lower_example [of "73 / 900"] by (simp_all add: c_def)
  then have c0: "0 < c" by simp
  have "5 / 111.32 \<le> 5 / (111.32 * c)"
    using c c0 by (intro divide_left_mono) simp_all
  then have o: "0.04 \<le> w" by (simp add: w_def)
  have "createBoundingBox (Num 14.6) (Num 120.98) (Num 5)
           = \<lparr> minLat = Num (14.6 - 5 / 111.32), maxLat = Num (14.6 + 5 / 111.32),
               minLon = Num (120.98 - 5 / (111.32 * c)),
               maxLon = Num (120.98 + 5 / (111.32 * c)) \<rparr>"
    using c0 unfolding c_def
    by (simp add: createBoundingBox_def toRadians_def js_sub_def Let_def)
  then have b: "createBoundingBox (Num 14.6) (Num 120.98) (Num 5)
           = \<lparr> minLat = Num (14.6 - 5 / 111.32), maxLat = Num (14.6 + 5 / 111.32),
               minLon = Num (120.98 - w), maxLon = Num (120.98 + w) \<rparr>"
    by (simp only: w_def)
  have "120.98 - w \<le> 121.02" "121.02 \<le> 120.98 + w"
    using o by simp_all
  then show ?thesis
    unfolding in_box_def b by simp
qed

lemma apiSearch_both_scans:
  assumes "filterErrors env = []"
    and "\<not> criteria_missing q"
    and "useCache q \<longrightarrow> cache (generateCacheKey (fmt env) (optimizeSearchParams q)) = None"
    and "scanLost env = Inr rows"
    and "scanFound env = Inr foundRows"
    and "validatePaginationParams (param_or q ''page'' ''1'') (param_or q ''limit'' ''50'')
           = (validPage, validLimit)"
    and "combined = combinedResults env q (lostResults env q rows) (foundResults env q foundRows)"
  shows "fst (apiSearch env cache q)
           = JsonPage (paginateResults combined validPage validLimit)
               (searchInfo q (length combined)) False"
  using assms by (simp add: apiSearch_def Let_def)

lemma default_page_and_limit:
  "validatePaginationParams (param_or nearby_query ''page'' ''1'')
     (param_or nearby_query ''limit'' ''50'') = (Num 1, Num 50)"
  by (simp add: validatePaginationParams_def param_or_def nearby_query_def parseInt_def
        utf16_def is_space_def is_digit_def digits_value_def num_or_def Math_max_def Math_min_def
        Let_def)

lemma single_page: "data (paginateResults [x] (Num 1) (Num 50)) = [x]"
proof -
  have c: "\<lceil>1 / 50 :: real\<rceil> = 1" by (simp add: ceiling_eq_iff)
  show ?thesis
    using c by (simp add: paginateResults_def Let_def Math_max_def Math_min_def js_sub_def
                  slice_def slice_index_def)
qed

text \<open>
  Claim C1. The claim: with centre coordinates in the request, every record of the
  merged results, of the lost or of the found category, is within the radius and carries
  \<open>distance_km\<close>. The handler applies \<open>filterByProximity\<close> to the rows of the lost
  category only. The request has the centre (14.60, 120.98) and the radius 5 km; the row
  has the coordinates (14.64, 121.02), inside the bounding box of the scan and more than
  5 km from the centre. As a row of the lost category it is removed; as a row of the
  found category it passes every step and is in the merged results, with its source and
  without \<open>distance_km\<close>, in every environment; the handler returns it on the first
  page of its response.
\<close>

theorem found_records_bypass_proximity_filter:
  "useGeospatial nearby_query
   \<and> in_box (createBoundingBox (parseFloat (param nearby_query ''lat''))
               (parseFloat (param nearby_query ''lon'')) (searchRadius nearby_query))
        (Num 14.64) (Num 121.02)
   \<and> extractCoordinates far_found_row = Some (Num 14.64, Num 121.02)
   \<and> \<not> js_le (calculateDistance (parseFloat (param nearby_query ''lat''))
                 (parseFloat (param nearby_query ''lon'')) (Num 14.64) (Num 121.02))
              (searchRadius nearby_query)
   \<and> lostResults env nearby_query [far_found_row] = []
   \<and> foundResults env nearby_query [far_found_row] = [far_found_row]
   \<and> combinedResults env nearby_query
         (lostResults env nearby_query []) (foundResults env nearby_query [far_found_row])
       = [far_found_row(''source'' := JString (utf16 ''found_phones''))]
   \<and> (far_found_row(''source'' := JString (utf16 ''found_phones''))) ''distance_km'' = JUndefined
   \<and> fst (apiSearch
             (env\<lparr>filterErrors := [], scanLost := Inr [], scanFound := Inr [far_found_row]\<rparr>)
             Map.empty nearby_query)
       = JsonPage
           (paginateResults [far_found_row(''source'' := JString (utf16 ''found_phones''))]
              (Num 1) (Num 50))
           (searchInfo nearby_query 1) False
   \<and> data (paginateResults [far_found_row(''source'' := JString (utf16 ''found_phones''))]
              (Num 1) (Num 50))
       = [far_found_row(''source'' := JString (utf16 ''found_phones''))]"
proof -
  let ?env = "env\<lparr>filterErrors := [], scanLost := Inr [], scanFound := Inr [far_found_row]\<rparr>"
  obtain d where d: "calculateDistance (Num 14.6) (Num 120.98) (Num 14.64) (Num 121.02) = Num d"
    "5 < d"
    using distance_example by blast
  have g: "useGeospatial nearby_query"
    by (simp add: useGeospatial_def present_def nearby_query_def utf16_def)
  have nq: "\<not> present nearby_query ''query''"
    by (simp add: present_def nearby_query_def)
  have far: "\<not> js_le (calculateDistance (Num 14.6) (Num 120.98) (Num 14.64) (Num 121.02)) (Num 5)"
    using d by simp
  have p: "proximity_entry (Num 14.6) (Num 120.98) (Num 5) far_found_row = []"
    using d by (simp add: proximity_entry_def far_found_row_coordinates)
  have l0: "lostResults env nearby_query [] = []"
    by (simp add: lostResults_def fuzzyStep_def phoneticStep_def geospatialStep_def nq
          filterByProximity_def sort_by_def Let_def)
  have fp: "filterByProximity [far_found_row] (Num 14.6) (Num 120.98) (Num 5) = []"
    using p by (simp add: filterByProximity_def sort_by_def)
  have gs: "geospatialStep nearby_query [far_found_row]
              = filterByProximity [far_found_row] (Num 14.6) (Num 120.98) (Num 5)"
    by (simp only: geospatialStep_def g nearby_query_values Let_def if_True)
  have l1: "lostResults env nearby_query [far_found_row] = []"
    by (simp add: lostResults_def fuzzyStep_def phoneticStep_def nq) (simp only: gs fp)
  have f: "foundResults env nearby_query [far_found_row] = [far_found_row]"
    by (simp add: foundResults_def fuzzyStep_def phoneticStep_def nq)
  have c: "combinedResults env nearby_query [] [far_found_row]
             = [far_found_row(''source'' := JString (utf16 ''found_phones''))]"
    by (simp add: combinedResults_def sort_by_def)
  have u: "(far_found_row(''source'' := JString (utf16 ''found_phones''))) ''distance_km'' = JUndefined"
    by (simp add: far_found_row_def emptyObj_def)
  have cm: "\<not> criteria_missing nearby_query"
    using g by (simp add: criteria_missing_def)
  have cs: "[far_found_row(''source'' := JString (utf16 ''found_phones''))]
              = combinedResults ?env nearby_query
                  (lostResults ?env nearby_query []) (foundResults ?env nearby_query [far_found_row])"
    by (simp add: lostResults_def fuzzyStep_def phoneticStep_def geospatialStep_def nq
          filterByProximity_def sort_by_def Let_def foundResults_def combinedResults_def)
  have a: "fst (apiSearch ?env Map.empty nearby_query)
       = JsonPage
           (paginateResults [far_found_row(''source'' := JString (utf16 ''found_phones''))]
              (Num 1) (Num 50))
           (searchInfo nearby_query
              (length [far_found_row(''source'' := JString (utf16 ''found_phones''))])) False"
    by (rule apiSearch_both_scans [OF _ cm _ _ _ default_page_and_limit cs]) simp_all
  show ?thesis
    using a
    by (simp only: g nearby_query_values far_found_row_in_box far_found_row_coordinates far
          l0 l1 f c u single_page simp_thms list.size One_nat_def [symmetric])
       simp
qed

theorem found_records_bypass_proximity_filter_witness:
  "num_truthy (Num 14.6) \<and> num_truthy (Num 120.98) \<and> num_truthy (Num 14.64)
   \<and> num_truthy (Num 121.02)
   \<and> lostResults found_only_env nearby_query [far_found_row] = []
   \<and> foundResults found_only_env nearby_query [far_found_row] = [far_found_row]
   \<and> fst (apiSearch found_only_env Map.empty nearby_query)
       = JsonPage
           (paginateResults [far_found_row(''source'' := JString (utf16 ''found_phones''))]
              (Num 1) (Num 50))
           (searchInfo nearby_query 1) False"
proof -
  have e: "found_only_env\<lparr>filterErrors := [], scanLost := Inr [],
                           scanFound := Inr [far_found_row]\<rparr> = found_only_env"
    by (simp add: found_only_env_def)
  from found_records_bypass_proximity_filter [of found_only_env]
  show ?thesis by (simp add: e)
qed

end
